theory Spec2Isabelle
  imports Main "HOL-Library.Word"
begin

unbundle bit_operations_syntax

section \<open>The peer handshake of libtransmission (handshake.cc)\<close>

text \<open>
  A shallow embedding of \<^verbatim>\<open>src/libtransmission/handshake.cc\<close>: the twelve read
  handlers of \<^verbatim>\<open>tr_handshake\<close>, the dispatcher \<^verbatim>\<open>can_read\<close>, the error callback
  and the constructor. The session object and its peer IO are records that every handler
  takes and returns; the collaborators the file only calls (mediator, SHA-1, DH, RC4, the
  done callback) are the fields of an environment record. Trace logging has no effect on
  the session and is left out, and so are the \<^verbatim>\<open>TR_ASSERT\<close> checks, which a release
  build compiles away.
\<close>

subsection \<open>Bytes and wire constants\<close>

type_synonym byte = "8 word"
type_synonym u16 = "16 word"
type_synonym u32 = "32 word"

text \<open>\<^verbatim>\<open>tr_sha1_digest_t\<close> and \<^verbatim>\<open>tr_peer_id_t\<close> are arrays of 20 bytes.\<close>

type_synonym tr_sha1_digest_t = "byte list"
type_synonym tr_peer_id_t = "byte list"

text \<open>The array \<^verbatim>\<open>HandshakeName\<close>: the byte 19 and then "BitTorrent protocol".\<close>

definition HandshakeName :: "byte list" where
  "HandshakeName =
     [19, 66, 105, 116, 84, 111, 114, 114, 101, 110,
      116, 32, 112, 114, 111, 116, 111, 99, 111, 108]"

definition HandshakeFlagsLen :: nat where "HandshakeFlagsLen = 8"
definition HandshakeSize :: nat where "HandshakeSize = 68"
definition IncomingHandshakeLen :: nat where "IncomingHandshakeLen = 48"

definition PadaMaxlen :: nat where "PadaMaxlen = 512"
definition PadbMaxlen :: nat where "PadbMaxlen = 512"
definition PadcMaxlen :: nat where "PadcMaxlen = 512"
definition CryptoProvidePlaintext :: u32 where "CryptoProvidePlaintext = 1"
definition CryptoProvideCrypto :: u32 where "CryptoProvideCrypto = 2"

text \<open>\<^verbatim>\<open>VC = vc_t{}\<close>: eight zero bytes; \<^verbatim>\<open>tr_sha1_digest_t{}\<close>: twenty.\<close>

definition VC :: "byte list" where "VC = replicate 8 0"
definition zero_digest :: tr_sha1_digest_t where "zero_digest = replicate 20 0"

text \<open>The values of \<^verbatim>\<open>errno\<close> that \<^verbatim>\<open>on_error\<close> tests (Linux numbering).\<close>

definition ETIMEDOUT :: int where "ETIMEDOUT = 110"
definition ECONNREFUSED :: int where "ECONNREFUSED = 111"

text \<open>A string literal of the source (\<^verbatim>\<open>"req1"sv\<close>) as its bytes.\<close>

definition sv :: "string \<Rightarrow> byte list" where
  "sv s = map (\<lambda>c. of_nat (of_char c)) s"

text \<open>Big-endian integers, as \<^verbatim>\<open>readUint16\<close>, \<^verbatim>\<open>addUint32\<close> and their like use.\<close>

definition be_nat :: "byte list \<Rightarrow> nat" where
  "be_nat bs = foldl (\<lambda>a b. a * 256 + unat b) 0 bs"

definition be16 :: "u16 \<Rightarrow> byte list" where
  "be16 w = [ucast (drop_bit 8 w), ucast w]"

definition be32 :: "u32 \<Rightarrow> byte list" where
  "be32 w = [ucast (drop_bit 24 w), ucast (drop_bit 16 w), ucast (drop_bit 8 w), ucast w]"

subsection \<open>Enumerations\<close>

datatype State =
    AwaitingHandshake | AwaitingPeerId | AwaitingYa | AwaitingPadA
  | AwaitingCryptoProvide | AwaitingPadC | AwaitingIa | AwaitingPayloadStream
  | AwaitingYb | AwaitingVc | AwaitingCryptoSelect | AwaitingPadD

datatype ReadState = READ_NOW | READ_LATER | READ_ERR

datatype ParseResult = Ok | EncryptionWrong | BadTorrent | PeerIsSelf

datatype tr_encryption_mode =
  TR_CLEAR_PREFERRED | TR_ENCRYPTION_PREFERRED | TR_ENCRYPTION_REQUIRED

subsection \<open>getCryptoSelect\<close>

text \<open>
  The array \<^verbatim>\<open>choices\<close> has two entries, both 0 at first; the switch fills one or
  two of them, and the loop runs over both.
\<close>

definition choices_of :: "tr_encryption_mode \<Rightarrow> u32 list" where
  "choices_of encryption_mode =
     (case encryption_mode of
        TR_ENCRYPTION_REQUIRED \<Rightarrow> [CryptoProvideCrypto, 0]
      | TR_ENCRYPTION_PREFERRED \<Rightarrow> [CryptoProvideCrypto, CryptoProvidePlaintext]
      | TR_CLEAR_PREFERRED \<Rightarrow> [CryptoProvidePlaintext, CryptoProvideCrypto])"

fun first_choice :: "u32 \<Rightarrow> u32 list \<Rightarrow> u32" where
  "first_choice crypto_provide [] = 0"
| "first_choice crypto_provide (choice # rest) =
     (if crypto_provide AND choice \<noteq> 0 then choice else first_choice crypto_provide rest)"

definition getCryptoSelect :: "tr_encryption_mode \<Rightarrow> u32 \<Rightarrow> u32" where
  "getCryptoSelect encryption_mode crypto_provide =
     first_choice crypto_provide (choices_of encryption_mode)"

subsection \<open>Collaborators\<close>

text \<open>\<^verbatim>\<open>Mediator::TorrentInfo\<close>, as the handlers read it.\<close>

record tr_torrent_info =
  ti_info_hash :: tr_sha1_digest_t
  ti_client_peer_id :: tr_peer_id_t
  ti_id :: nat
  ti_is_done :: bool

text \<open>
  What handshake.cc calls and does not define is a parameter: the mediator's queries,
  \<^verbatim>\<open>tr_sha1::digest\<close> (on the concatenation of its arguments), the DH secret
  that \<^verbatim>\<open>dh_.setPeerPublicKey\<close> fixes, our public key, the random pad of
  \<^verbatim>\<open>send_public_key_and_pad\<close>, the RC4 keystream of a key (after the discarded
  prefix), what the done callback returns, and the bit set \<^verbatim>\<open>crypto_provide()\<close>
  that the session offers under its encryption mode.
\<close>

record env =
  sha1_digest :: "byte list \<Rightarrow> tr_sha1_digest_t"
  dh_secret_for :: "byte list \<Rightarrow> byte list"
  dh_public_key :: "byte list"
  random_pad :: "nat \<Rightarrow> byte list"
  rc4_keystream :: "byte list \<Rightarrow> nat \<Rightarrow> byte"
  torrent_info :: "tr_sha1_digest_t \<Rightarrow> tr_torrent_info option"
  torrent_info_from_obfuscated :: "tr_sha1_digest_t \<Rightarrow> tr_torrent_info option"
  is_peer_known_seed :: "nat \<Rightarrow> nat \<Rightarrow> bool"
  allows_dht :: bool
  allows_tcp :: bool
  done_func :: "bool \<Rightarrow> bool"
  crypto_provide_offer :: "tr_encryption_mode \<Rightarrow> u32"

text \<open>
  Modelled from the spec: \<^verbatim>\<open>DH::key_bigend_t\<close> (declared in a header that is not in
  the repository's files here). A public key is 96 bytes on the wire.
\<close>

definition KeySize :: nat where "KeySize = 96"

subsection \<open>The RC4 filter and the peer IO\<close>

text \<open>
  Modelled from the spec: \<^verbatim>\<open>tr_message_stream_encryption::Filter\<close>, whose source is
  not in the repository's files here. RC4 is a keystream cipher keyed from a SHA-1 digest:
  a filter is its key and the number of keystream bytes already used, and it XORs each
  byte with the next keystream byte.
\<close>

record Filter =
  filter_key :: "byte list"
  filter_pos :: nat

definition filter_apply :: "env \<Rightarrow> Filter \<Rightarrow> byte list \<Rightarrow> byte list \<times> Filter" where
  "filter_apply e f bs =
     (map2 (XOR) bs
        (map (rc4_keystream e (filter_key f)) [filter_pos f ..< filter_pos f + length bs]),
      f\<lparr>filter_pos := filter_pos f + length bs\<rparr>)"

text \<open>
  Modelled from the spec: the outgoing stream key is SHA1("keyA", S, SKEY) and the
  incoming one SHA1("keyB", S, SKEY), seen from the initiator; the receiver swaps them.
\<close>

definition filter_encryptInit :: "env \<Rightarrow> bool \<Rightarrow> byte list \<Rightarrow> tr_sha1_digest_t \<Rightarrow> Filter" where
  "filter_encryptInit e is_incoming secret info_hash =
     \<lparr>filter_key = sha1_digest e (sv (if is_incoming then ''keyB'' else ''keyA'') @ secret @ info_hash),
      filter_pos = 0\<rparr>"

definition filter_decryptInit :: "env \<Rightarrow> bool \<Rightarrow> byte list \<Rightarrow> tr_sha1_digest_t \<Rightarrow> Filter" where
  "filter_decryptInit e is_incoming secret info_hash =
     \<lparr>filter_key = sha1_digest e (sv (if is_incoming then ''keyA'' else ''keyB'') @ secret @ info_hash),
      filter_pos = 0\<rparr>"

text \<open>
  Modelled from the spec: \<^verbatim>\<open>tr_peerIo\<close> (peer-io.h is not in the repository's files
  here). The read buffer holds the bytes as received; the write buffer holds the bytes as
  they go on the wire. Once a filter is installed on a direction, every later read or
  write on it passes through the filter; bytes buffered before are not changed.
  \<open>io_reconnect_results\<close> lists what the next calls of \<^verbatim>\<open>reconnect()\<close> will answer.
\<close>

record tr_peerIo =
  io_inbuf :: "byte list"
  io_outbuf :: "byte list"
  io_encrypt :: "Filter option"
  io_decrypt :: "Filter option"
  io_is_incoming :: bool
  io_is_utp :: bool
  io_torrent_hash :: tr_sha1_digest_t
  io_address :: nat
  io_dht :: bool
  io_ltep :: bool
  io_fext :: bool
  io_reconnect_results :: "bool list"

text \<open>
  Modelled from the spec: the operations of \<^verbatim>\<open>tr_peerIo\<close> that handshake.cc calls.
  \<^verbatim>\<open>readBufferStartsWith\<close> looks at the bytes as received; \<^verbatim>\<open>readBytes\<close>,
  \<^verbatim>\<open>readBufferDrain\<close>, \<^verbatim>\<open>readUint16\<close> and \<^verbatim>\<open>readUint32\<close> consume bytes
  through the decrypt filter, if one is installed. Integers are big-endian.
\<close>

definition readBufferSize :: "tr_peerIo \<Rightarrow> nat" where
  "readBufferSize io = length (io_inbuf io)"

definition readBufferStartsWith :: "tr_peerIo \<Rightarrow> byte list \<Rightarrow> bool" where
  "readBufferStartsWith io needle = (take (length needle) (io_inbuf io) = needle)"

definition readBytes :: "env \<Rightarrow> tr_peerIo \<Rightarrow> nat \<Rightarrow> byte list \<times> tr_peerIo" where
  "readBytes e io n =
     (let raw = take n (io_inbuf io);
          io1 = io\<lparr>io_inbuf := drop n (io_inbuf io)\<rparr>
      in case io_decrypt io of
           None \<Rightarrow> (raw, io1)
         | Some f \<Rightarrow> (fst (filter_apply e f raw), io1\<lparr>io_decrypt := Some (snd (filter_apply e f raw))\<rparr>))"

definition readBufferDrain :: "env \<Rightarrow> tr_peerIo \<Rightarrow> nat \<Rightarrow> tr_peerIo" where
  "readBufferDrain e io n = snd (readBytes e io n)"

definition readUint16 :: "env \<Rightarrow> tr_peerIo \<Rightarrow> u16 \<times> tr_peerIo" where
  "readUint16 e io = (of_nat (be_nat (fst (readBytes e io 2))), snd (readBytes e io 2))"

definition readUint32 :: "env \<Rightarrow> tr_peerIo \<Rightarrow> u32 \<times> tr_peerIo" where
  "readUint32 e io = (of_nat (be_nat (fst (readBytes e io 4))), snd (readBytes e io 4))"

text \<open>
  Modelled from the spec: \<^verbatim>\<open>write\<close> and \<^verbatim>\<open>writeBytes\<close> put the bytes on the wire,
  through the encrypt filter if one is installed; \<^verbatim>\<open>write\<close> also empties the buffer it
  is given. \<^verbatim>\<open>encryptInit\<close>, \<^verbatim>\<open>decryptInit\<close> and \<^verbatim>\<open>setTorrentHash\<close> set the
  IO's filters and hash.
\<close>

definition writeBytes :: "env \<Rightarrow> tr_peerIo \<Rightarrow> byte list \<Rightarrow> tr_peerIo" where
  "writeBytes e io bs =
     (case io_encrypt io of
        None \<Rightarrow> io\<lparr>io_outbuf := io_outbuf io @ bs\<rparr>
      | Some f \<Rightarrow> io\<lparr>io_outbuf := io_outbuf io @ fst (filter_apply e f bs),
                     io_encrypt := Some (snd (filter_apply e f bs))\<rparr>)"

definition encryptInit :: "env \<Rightarrow> tr_peerIo \<Rightarrow> bool \<Rightarrow> byte list \<Rightarrow> tr_sha1_digest_t \<Rightarrow> tr_peerIo" where
  "encryptInit e io is_incoming secret info_hash =
     io\<lparr>io_encrypt := Some (filter_encryptInit e is_incoming secret info_hash)\<rparr>"

definition decryptInit :: "env \<Rightarrow> tr_peerIo \<Rightarrow> bool \<Rightarrow> byte list \<Rightarrow> tr_sha1_digest_t \<Rightarrow> tr_peerIo" where
  "decryptInit e io is_incoming secret info_hash =
     io\<lparr>io_decrypt := Some (filter_decryptInit e is_incoming secret info_hash)\<rparr>"

definition setTorrentHash :: "tr_peerIo \<Rightarrow> tr_sha1_digest_t \<Rightarrow> tr_peerIo" where
  "setTorrentHash io h = io\<lparr>io_torrent_hash := h\<rparr>"

text \<open>
  Modelled from the spec: \<^verbatim>\<open>reconnect()\<close> answers 0 on success, and the new socket is
  then a TCP one.
\<close>

definition reconnect :: "tr_peerIo \<Rightarrow> bool \<times> tr_peerIo" where
  "reconnect io =
     (case io_reconnect_results io of
        [] \<Rightarrow> (False, io)
      | r # rs \<Rightarrow> (r, io\<lparr>io_reconnect_results := rs, io_is_utp := (io_is_utp io \<and> \<not> r)\<rparr>))"

definition HANDSHAKE_HAS_LTEP :: "byte list \<Rightarrow> bool" where
  "HANDSHAKE_HAS_LTEP bits = ((bits ! 5) AND 0x10 \<noteq> 0)"
definition HANDSHAKE_HAS_FASTEXT :: "byte list \<Rightarrow> bool" where
  "HANDSHAKE_HAS_FASTEXT bits = ((bits ! 7) AND 0x04 \<noteq> 0)"
definition HANDSHAKE_HAS_DHT :: "byte list \<Rightarrow> bool" where
  "HANDSHAKE_HAS_DHT bits = ((bits ! 7) AND 0x01 \<noteq> 0)"
definition HANDSHAKE_SET_LTEP :: "byte list \<Rightarrow> byte list" where
  "HANDSHAKE_SET_LTEP bits = bits[5 := (bits ! 5) OR 0x10]"
definition HANDSHAKE_SET_FASTEXT :: "byte list \<Rightarrow> byte list" where
  "HANDSHAKE_SET_FASTEXT bits = bits[7 := (bits ! 7) OR 0x04]"
definition HANDSHAKE_SET_DHT :: "byte list \<Rightarrow> byte list" where
  "HANDSHAKE_SET_DHT bits = bits[7 := (bits ! 7) OR 0x01]"

subsection \<open>The session\<close>

text \<open>
  The members of \<^verbatim>\<open>tr_handshake\<close> that handshake.cc reads and writes. The peer IO is
  held in the session (\<^verbatim>\<open>peer_io_\<close> and the handlers' argument are one object).
  \<open>hs_done_result\<close> is the argument the done callback was fired with, if it was;
  \<open>hs_utp_failed\<close> lists the calls of the mediator's \<^verbatim>\<open>set_utp_failed\<close>.
\<close>

record tr_handshake =
  hs_state :: State
  hs_encryption_mode :: tr_encryption_mode
  hs_dh_secret :: "byte list"
  hs_have_read_anything_from_peer :: bool
  hs_have_sent_bittorrent_handshake :: bool
  hs_crypto_select :: u32
  hs_crypto_provide :: u32
  hs_pad_c_len :: u16
  hs_pad_d_len :: u16
  hs_ia_len :: u16
  hs_peer_id :: "tr_peer_id_t option"
  hs_peer_io :: tr_peerIo
  hs_done_result :: "bool option"
  hs_utp_failed :: "(tr_sha1_digest_t \<times> nat) list"

text \<open>
  Modelled from the spec: \<^verbatim>\<open>fire_done\<close> and \<^verbatim>\<open>done\<close> (handshake.h is not in the
  repository's files here). The done callback is guarded so that it fires once; a handler
  that completes the session never answers \<^verbatim>\<open>READ_NOW\<close>.
\<close>

definition fire_done :: "env \<Rightarrow> tr_handshake \<Rightarrow> bool \<Rightarrow> bool \<times> tr_handshake" where
  "fire_done e hs is_connected =
     (case hs_done_result hs of
        Some r \<Rightarrow> (False, hs)
      | None \<Rightarrow> (done_func e is_connected, hs\<lparr>hs_done_result := Some is_connected\<rparr>))"

definition handshake_done :: "env \<Rightarrow> tr_handshake \<Rightarrow> bool \<Rightarrow> ReadState \<times> tr_handshake" where
  "handshake_done e hs is_connected =
     (if fst (fire_done e hs is_connected) then READ_LATER else READ_ERR,
      snd (fire_done e hs is_connected))"

text \<open>Modelled from the spec: \<^verbatim>\<open>set_utp_failed\<close> hands the pair to the mediator.\<close>

definition set_utp_failed :: "tr_handshake \<Rightarrow> tr_sha1_digest_t \<Rightarrow> nat \<Rightarrow> tr_handshake" where
  "set_utp_failed hs info_hash addr = hs\<lparr>hs_utp_failed := hs_utp_failed hs @ [(info_hash, addr)]\<rparr>"

text \<open>
  Modelled from the spec: \<^verbatim>\<open>send_public_key_and_pad<PadMax>\<close> writes our public key
  and a random pad of at most \<open>PadMax\<close> bytes.
\<close>

definition send_public_key_and_pad :: "env \<Rightarrow> nat \<Rightarrow> tr_peerIo \<Rightarrow> tr_peerIo" where
  "send_public_key_and_pad e PadMax io =
     writeBytes e io (dh_public_key e @ take PadMax (random_pad e PadMax))"

subsection \<open>build_handshake_message and parse_handshake\<close>

text \<open>
  \<^verbatim>\<open>build_handshake_message\<close> fills the caller's 68-byte array and answers true, or
  leaves it as it is and answers false when the mediator does not know the IO's torrent.
\<close>

definition build_handshake_message :: "env \<Rightarrow> tr_peerIo \<Rightarrow> byte list \<Rightarrow> bool \<times> byte list" where
  "build_handshake_message e io buf =
     (let info_hash = io_torrent_hash io in
      case torrent_info e info_hash of
        None \<Rightarrow> (False, buf)
      | Some info \<Rightarrow>
          (let flags = HANDSHAKE_SET_FASTEXT (HANDSHAKE_SET_LTEP (replicate HandshakeFlagsLen 0));
               flags = (if allows_dht e then HANDSHAKE_SET_DHT flags else flags)
           in (True, HandshakeName @ flags @ info_hash @ ti_client_peer_id info)))"

definition parse_handshake :: "env \<Rightarrow> tr_handshake \<Rightarrow> ParseResult \<times> tr_handshake" where
  "parse_handshake e hs =
     (let io = hs_peer_io hs in
      if readBufferSize io < HandshakeSize then (EncryptionWrong, hs)
      else
        let name = fst (readBytes e io (length HandshakeName));
            io1 = snd (readBytes e io (length HandshakeName))
        in if name \<noteq> HandshakeName then (EncryptionWrong, hs\<lparr>hs_peer_io := io1\<rparr>)
        else
          let reserved = fst (readBytes e io1 HandshakeFlagsLen);
              io2 = snd (readBytes e io1 HandshakeFlagsLen);
              info_hash = fst (readBytes e io2 20);
              io3 = snd (readBytes e io2 20)
          in if info_hash = zero_digest \<or> info_hash \<noteq> io_torrent_hash io3
             then (BadTorrent, hs\<lparr>hs_peer_io := io3\<rparr>)
          else
            let peer_id = fst (readBytes e io3 20);
                io4 = snd (readBytes e io3 20);
                hs1 = hs\<lparr>hs_peer_id := Some peer_id, hs_peer_io := io4\<rparr>;
                connected_to_self =
                  (case torrent_info e info_hash of
                     None \<Rightarrow> False
                   | Some info \<Rightarrow> ti_client_peer_id info = peer_id)
            in if connected_to_self then (PeerIsSelf, hs1)
               else (Ok, hs1\<lparr>hs_peer_io := io4\<lparr>io_dht := HANDSHAKE_HAS_DHT reserved,
                                  io_ltep := HANDSHAKE_HAS_LTEP reserved,
                                  io_fext := HANDSHAKE_HAS_FASTEXT reserved\<rparr>\<rparr>))"

subsection \<open>Outgoing connections\<close>

definition send_ya :: "env \<Rightarrow> tr_handshake \<Rightarrow> tr_handshake" where
  "send_ya e hs =
     hs\<lparr>hs_peer_io := send_public_key_and_pad e PadaMaxlen (hs_peer_io hs),
        hs_state := AwaitingYb\<rparr>"

definition read_yb :: "env \<Rightarrow> tr_handshake \<Rightarrow> ReadState \<times> tr_handshake" where
  "read_yb e hs =
     (let io = hs_peer_io hs in
      if readBufferSize io < length HandshakeName then (READ_LATER, hs)
      else
        let is_encrypted = (\<not> readBufferStartsWith io HandshakeName) in
        if is_encrypted \<and> readBufferSize io < KeySize then (READ_LATER, hs)
        else if \<not> is_encrypted then (READ_NOW, hs\<lparr>hs_state := AwaitingHandshake\<rparr>)
        else
          let peer_public_key = fst (readBytes e io KeySize);
              io1 = snd (readBytes e io KeySize);
              secret = dh_secret_for e peer_public_key;
              hs1 = hs\<lparr>hs_have_read_anything_from_peer := True, hs_dh_secret := secret\<rparr>;
              info_hash = io_torrent_hash io1;
              req2 = sha1_digest e (sv ''req2'' @ info_hash);
              req3 = sha1_digest e (sv ''req3'' @ secret);
              outbuf = sha1_digest e (sv ''req1'' @ secret) @ map2 (XOR) req2 req3;
              io2 = writeBytes e io1 outbuf;
              io3 = encryptInit e io2 (io_is_incoming io2) secret info_hash;
              outbuf = VC @ be32 (crypto_provide_offer e (hs_encryption_mode hs1)) @ be16 0;
              built = build_handshake_message e io3 (replicate HandshakeSize 0)
          in if fst built then
               (READ_NOW,
                hs1\<lparr>hs_have_sent_bittorrent_handshake := True,
                    hs_state := AwaitingVc,
                    hs_peer_io := writeBytes e io3
                      (outbuf @ be16 (of_nat HandshakeSize) @ snd built)\<rparr>)
             else handshake_done e (hs1\<lparr>hs_peer_io := io3\<rparr>) False)"

text \<open>
  The loop of \<^verbatim>\<open>read_vc\<close>, by the number of iterations that are left.
\<close>

fun read_vc_loop ::
  "env \<Rightarrow> tr_sha1_digest_t \<Rightarrow> byte list \<Rightarrow> nat \<Rightarrow> tr_handshake \<Rightarrow> ReadState \<times> tr_handshake" where
  "read_vc_loop e info_hash needle 0 hs = handshake_done e hs False"
| "read_vc_loop e info_hash needle (Suc n) hs =
     (let io = hs_peer_io hs in
      if readBufferSize io < length needle then (READ_LATER, hs)
      else if readBufferStartsWith io needle then
        (let io1 = decryptInit e io (io_is_incoming io) (hs_dh_secret hs) info_hash;
             io2 = snd (readBytes e io1 (length needle))
         in (READ_NOW, hs\<lparr>hs_peer_io := io2, hs_state := AwaitingCryptoSelect\<rparr>))
      else read_vc_loop e info_hash needle n (hs\<lparr>hs_peer_io := readBufferDrain e io 1\<rparr>))"

definition read_vc :: "env \<Rightarrow> tr_handshake \<Rightarrow> ReadState \<times> tr_handshake" where
  "read_vc e hs =
     (let info_hash = io_torrent_hash (hs_peer_io hs);
          filter = filter_encryptInit e True (hs_dh_secret hs) info_hash;
          needle = fst (filter_apply e filter VC)
      in read_vc_loop e info_hash needle PadbMaxlen hs)"

definition read_crypto_select :: "env \<Rightarrow> tr_handshake \<Rightarrow> ReadState \<times> tr_handshake" where
  "read_crypto_select e hs =
     (let io = hs_peer_io hs in
      if readBufferSize io < 4 + 2 then (READ_LATER, hs)
      else
        let crypto_select = fst (readUint32 e io);
            hs1 = hs\<lparr>hs_crypto_select := crypto_select, hs_peer_io := snd (readUint32 e io)\<rparr>
        in if crypto_select AND crypto_provide_offer e (hs_encryption_mode hs1) = 0
           then handshake_done e hs1 False
        else
          let pad_d_len = fst (readUint16 e (hs_peer_io hs1));
              hs2 = hs1\<lparr>hs_peer_io := snd (readUint16 e (hs_peer_io hs1))\<rparr>
          in if 512 < unat pad_d_len then handshake_done e hs2 False
             else (READ_NOW, hs2\<lparr>hs_pad_d_len := pad_d_len, hs_state := AwaitingPadD\<rparr>))"

definition read_pad_d :: "env \<Rightarrow> tr_handshake \<Rightarrow> ReadState \<times> tr_handshake" where
  "read_pad_d e hs =
     (let needlen = unat (hs_pad_d_len hs); io = hs_peer_io hs in
      if readBufferSize io < needlen then (READ_LATER, hs)
      else (READ_NOW, hs\<lparr>hs_peer_io := readBufferDrain e io needlen,
                           hs_state := AwaitingHandshake\<rparr>))"

subsection \<open>Incoming connections\<close>

text \<open>
  The end of \<^verbatim>\<open>read_handshake\<close>: send our own handshake if it has not been sent.
\<close>

definition read_handshake_reply :: "env \<Rightarrow> tr_handshake \<Rightarrow> ReadState \<times> tr_handshake" where
  "read_handshake_reply e hs =
     (if \<not> hs_have_sent_bittorrent_handshake hs then
        (let built = build_handshake_message e (hs_peer_io hs) (replicate HandshakeSize 0) in
         if \<not> fst built then handshake_done e hs False
         else (READ_NOW, hs\<lparr>hs_peer_io := writeBytes e (hs_peer_io hs) (snd built),
                              hs_have_sent_bittorrent_handshake := True,
                              hs_state := AwaitingPeerId\<rparr>))
      else (READ_NOW, hs\<lparr>hs_state := AwaitingPeerId\<rparr>))"

text \<open>The part of \<^verbatim>\<open>read_handshake\<close> after the look at the first 20 bytes.\<close>

definition read_handshake_body :: "env \<Rightarrow> tr_handshake \<Rightarrow> ReadState \<times> tr_handshake" where
  "read_handshake_body e hs =
     (let io = hs_peer_io hs;
          name = fst (readBytes e io (length HandshakeName));
          io1 = snd (readBytes e io (length HandshakeName))
      in if name \<noteq> HandshakeName then handshake_done e (hs\<lparr>hs_peer_io := io1\<rparr>) False
      else
        let reserved = fst (readBytes e io1 HandshakeFlagsLen);
            io2 = (snd (readBytes e io1 HandshakeFlagsLen))
                    \<lparr>io_dht := HANDSHAKE_HAS_DHT reserved,
                     io_ltep := HANDSHAKE_HAS_LTEP reserved,
                     io_fext := HANDSHAKE_HAS_FASTEXT reserved\<rparr>;
            hash = fst (readBytes e io2 20);
            io3 = snd (readBytes e io2 20)
        in if io_is_incoming io3 then
             (if torrent_info e hash = None
              then handshake_done e (hs\<lparr>hs_peer_io := io3\<rparr>) False
              else read_handshake_reply e (hs\<lparr>hs_peer_io := setTorrentHash io3 hash\<rparr>))
           else
             (if io_torrent_hash io3 \<noteq> hash
              then handshake_done e (hs\<lparr>hs_peer_io := io3\<rparr>) False
              else read_handshake_reply e (hs\<lparr>hs_peer_io := io3\<rparr>)))"

definition read_handshake :: "env \<Rightarrow> tr_handshake \<Rightarrow> ReadState \<times> tr_handshake" where
  "read_handshake e hs =
     (let io = hs_peer_io hs in
      if readBufferSize io < IncomingHandshakeLen then (READ_LATER, hs)
      else
        let hs1 = hs\<lparr>hs_have_read_anything_from_peer := True\<rparr> in
        if readBufferStartsWith io HandshakeName then
          (if hs_encryption_mode hs1 = TR_ENCRYPTION_REQUIRED then handshake_done e hs1 False
           else read_handshake_body e hs1)
        else
          (if io_is_incoming io then (READ_NOW, hs1\<lparr>hs_state := AwaitingYa\<rparr>)
           else read_handshake_body e hs1))"

definition read_peer_id :: "env \<Rightarrow> tr_handshake \<Rightarrow> ReadState \<times> tr_handshake" where
  "read_peer_id e hs =
     (let io = hs_peer_io hs in
      if readBufferSize io < 20 then (READ_LATER, hs)
      else
        let peer_id = fst (readBytes e io 20);
            hs1 = hs\<lparr>hs_peer_io := snd (readBytes e io 20), hs_peer_id := Some peer_id\<rparr>;
            info_hash = io_torrent_hash (hs_peer_io hs1);
            connected_to_self =
              (case torrent_info e info_hash of
                 None \<Rightarrow> False
               | Some info \<Rightarrow> ti_client_peer_id info = peer_id)
        in handshake_done e hs1 (\<not> connected_to_self))"

definition read_ya :: "env \<Rightarrow> tr_handshake \<Rightarrow> ReadState \<times> tr_handshake" where
  "read_ya e hs =
     (let io = hs_peer_io hs in
      if readBufferSize io < KeySize then (READ_LATER, hs)
      else
        let peer_public_key = fst (readBytes e io KeySize);
            io1 = snd (readBytes e io KeySize)
        in (READ_NOW,
            hs\<lparr>hs_dh_secret := dh_secret_for e peer_public_key,
               hs_peer_io := send_public_key_and_pad e PadbMaxlen io1,
               hs_state := AwaitingPadA\<rparr>))"

text \<open>
  The loop of \<^verbatim>\<open>read_pad_a\<close>, by the number of iterations that are left: test the
  buffer's length, test its first 20 bytes against the needle, drain one byte.
\<close>

fun read_pad_a_loop :: "env \<Rightarrow> byte list \<Rightarrow> nat \<Rightarrow> tr_handshake \<Rightarrow> ReadState \<times> tr_handshake" where
  "read_pad_a_loop e needle 0 hs = handshake_done e hs False"
| "read_pad_a_loop e needle (Suc n) hs =
     (let io = hs_peer_io hs in
      if readBufferSize io < length needle then (READ_LATER, hs)
      else if readBufferStartsWith io needle then
        (READ_NOW, hs\<lparr>hs_peer_io := readBufferDrain e io (length needle),
                      hs_state := AwaitingCryptoProvide\<rparr>)
      else read_pad_a_loop e needle n (hs\<lparr>hs_peer_io := readBufferDrain e io 1\<rparr>))"

definition read_pad_a :: "env \<Rightarrow> tr_handshake \<Rightarrow> ReadState \<times> tr_handshake" where
  "read_pad_a e hs =
     read_pad_a_loop e (sha1_digest e (sv ''req1'' @ hs_dh_secret hs)) PadaMaxlen hs"

definition read_crypto_provide :: "env \<Rightarrow> tr_handshake \<Rightarrow> ReadState \<times> tr_handshake" where
  "read_crypto_provide e hs =
     (let io = hs_peer_io hs;
          needlen = 20 + length VC + 4 + 2
      in if readBufferSize io < needlen then (READ_LATER, hs)
      else
        let req2 = fst (readBytes e io 20);
            io1 = snd (readBytes e io 20);
            req3 = sha1_digest e (sv ''req3'' @ hs_dh_secret hs);
            obfuscated_hash = map2 (XOR) req2 req3
        in case torrent_info_from_obfuscated e obfuscated_hash of
             None \<Rightarrow> handshake_done e (hs\<lparr>hs_peer_io := io1\<rparr>) False
           | Some info \<Rightarrow>
               let client_is_seed = ti_is_done info;
                   peer_is_seed = is_peer_known_seed e (ti_id info) (io_address io1);
                   io2 = setTorrentHash io1 (ti_info_hash info)
               in if client_is_seed \<and> peer_is_seed
                  then handshake_done e (hs\<lparr>hs_peer_io := io2\<rparr>) False
               else
                 let info_hash = io_torrent_hash io2;
                     io3 = decryptInit e io2 (io_is_incoming io2) (hs_dh_secret hs) info_hash;
                     vc_in = fst (readBytes e io3 (length VC));
                     io4 = snd (readBytes e io3 (length VC));
                     crypto_provide = fst (readUint32 e io4);
                     io5 = snd (readUint32 e io4);
                     hs1 = hs\<lparr>hs_crypto_provide := crypto_provide\<rparr>;
                     padc_len = fst (readUint16 e io5);
                     io6 = snd (readUint16 e io5)
                 in if PadcMaxlen < unat padc_len
                    then handshake_done e (hs1\<lparr>hs_peer_io := io6\<rparr>) False
                    else (READ_NOW, hs1\<lparr>hs_peer_io := io6, hs_pad_c_len := padc_len,
                                         hs_state := AwaitingPadC\<rparr>))"

text \<open>
  \<^verbatim>\<open>read_pad_c\<close> reads \<^verbatim>\<open>pad_c_len_\<close> bytes into a local array of
  \<^verbatim>\<open>PadcMaxlen\<close> bytes. A read that would not fit the array is a fault of the model.
\<close>

datatype fault = BufferOverrun

definition read_pad_c :: "env \<Rightarrow> tr_handshake \<Rightarrow> fault + ReadState \<times> tr_handshake" where
  "read_pad_c e hs =
     (let io = hs_peer_io hs;
          needlen = unat (hs_pad_c_len hs) + 2
      in if readBufferSize io < needlen then Inr (READ_LATER, hs)
      else if PadcMaxlen < unat (hs_pad_c_len hs) then Inl BufferOverrun
      else
        let io1 = snd (readBytes e io (unat (hs_pad_c_len hs)));
            ia_len = fst (readUint16 e io1)
        in Inr (READ_NOW, hs\<lparr>hs_peer_io := snd (readUint16 e io1), hs_ia_len := ia_len,
                               hs_state := AwaitingIa\<rparr>))"

definition read_ia :: "env \<Rightarrow> tr_handshake \<Rightarrow> ReadState \<times> tr_handshake" where
  "read_ia e hs =
     (let io = hs_peer_io hs;
          needlen = unat (hs_ia_len hs)
      in if readBufferSize io < needlen then (READ_LATER, hs)
      else
        let info_hash = io_torrent_hash io;
            io1 = encryptInit e io (io_is_incoming io) (hs_dh_secret hs) info_hash;
            crypto_select = getCryptoSelect (hs_encryption_mode hs) (hs_crypto_provide hs)
        in if crypto_select = 0 then handshake_done e (hs\<lparr>hs_peer_io := io1\<rparr>) False
        else
          let outbuf = VC @ be32 crypto_select @ be16 0;
              io2 = (if crypto_select = CryptoProvidePlaintext then writeBytes e io1 outbuf else io1);
              outbuf = (if crypto_select = CryptoProvidePlaintext then [] else outbuf);
              built = build_handshake_message e io2 (replicate HandshakeSize 0)
          in if fst built then
               (READ_NOW, hs\<lparr>hs_have_sent_bittorrent_handshake := True,
                              hs_peer_io := writeBytes e io2 (outbuf @ snd built),
                              hs_state := AwaitingPayloadStream\<rparr>)
             else handshake_done e (hs\<lparr>hs_peer_io := io2\<rparr>) False)"

definition read_payload_stream :: "env \<Rightarrow> tr_handshake \<Rightarrow> ReadState \<times> tr_handshake" where
  "read_payload_stream e hs =
     (let needlen = HandshakeSize in
      if readBufferSize (hs_peer_io hs) < needlen then (READ_LATER, hs)
      else
        let i = fst (parse_handshake e hs);
            hs1 = snd (parse_handshake e hs)
        in if i \<noteq> Ok then handshake_done e hs1 False else handshake_done e hs1 True)"

subsection \<open>The dispatcher, the error callback and the constructor\<close>

text \<open>The switch of \<^verbatim>\<open>can_read\<close>: one call of the current state's handler.\<close>

definition dispatch :: "env \<Rightarrow> tr_handshake \<Rightarrow> fault + ReadState \<times> tr_handshake" where
  "dispatch e hs =
     (case hs_state hs of
        AwaitingHandshake \<Rightarrow> Inr (read_handshake e hs)
      | AwaitingPeerId \<Rightarrow> Inr (read_peer_id e hs)
      | AwaitingYa \<Rightarrow> Inr (read_ya e hs)
      | AwaitingPadA \<Rightarrow> Inr (read_pad_a e hs)
      | AwaitingCryptoProvide \<Rightarrow> Inr (read_crypto_provide e hs)
      | AwaitingPadC \<Rightarrow> read_pad_c e hs
      | AwaitingIa \<Rightarrow> Inr (read_ia e hs)
      | AwaitingPayloadStream \<Rightarrow> Inr (read_payload_stream e hs)
      | AwaitingYb \<Rightarrow> Inr (read_yb e hs)
      | AwaitingVc \<Rightarrow> Inr (read_vc e hs)
      | AwaitingCryptoSelect \<Rightarrow> Inr (read_crypto_select e hs)
      | AwaitingPadD \<Rightarrow> Inr (read_pad_d e hs))"

text \<open>
  The end of an iteration of \<^verbatim>\<open>can_read\<close>: go on only after \<^verbatim>\<open>READ_NOW\<close>, and
  in the three states that await a recorded number of bytes only if that many are there.
\<close>

definition ready_for_more :: "ReadState \<Rightarrow> tr_handshake \<Rightarrow> bool" where
  "ready_for_more ret hs =
     (if ret \<noteq> READ_NOW then False
      else if hs_state hs = AwaitingPadC
        then unat (hs_pad_c_len hs) \<le> readBufferSize (hs_peer_io hs)
      else if hs_state hs = AwaitingPadD
        then unat (hs_pad_d_len hs) \<le> readBufferSize (hs_peer_io hs)
      else if hs_state hs = AwaitingIa
        then unat (hs_ia_len hs) \<le> readBufferSize (hs_peer_io hs)
      else True)"

text \<open>
  \<^verbatim>\<open>can_read\<close>: the loop around the switch. It ends because every handler that
  answers \<^verbatim>\<open>READ_NOW\<close> has moved the session on in the order of the states
  (\<open>state_rank\<close>); the termination proof follows the facts about the handlers below.
\<close>

function can_read :: "env \<Rightarrow> tr_handshake \<Rightarrow> fault + ReadState \<times> tr_handshake" where
  "can_read e hs =
     (case dispatch e hs of
        Inl f \<Rightarrow> Inl f
      | Inr (ret, hs') \<Rightarrow> if ready_for_more ret hs' then can_read e hs' else Inr (ret, hs'))"
  by pat_completeness auto

definition state_rank :: "State \<Rightarrow> nat" where
  "state_rank s =
     (case s of
        AwaitingYb \<Rightarrow> 11 | AwaitingVc \<Rightarrow> 10 | AwaitingCryptoSelect \<Rightarrow> 9 | AwaitingPadD \<Rightarrow> 8
      | AwaitingHandshake \<Rightarrow> 7 | AwaitingYa \<Rightarrow> 6 | AwaitingPadA \<Rightarrow> 5
      | AwaitingCryptoProvide \<Rightarrow> 4 | AwaitingPadC \<Rightarrow> 3 | AwaitingIa \<Rightarrow> 2
      | AwaitingPayloadStream \<Rightarrow> 1 | AwaitingPeerId \<Rightarrow> 0)"

text \<open>
  The block that \<^verbatim>\<open>on_error\<close> (twice) and the constructor (once) spell out: build the
  handshake message into a zeroed array (the answer is not looked at), set the flag and
  the state, write the array.
\<close>

definition send_plain_handshake :: "env \<Rightarrow> tr_handshake \<Rightarrow> tr_peerIo \<Rightarrow> tr_handshake" where
  "send_plain_handshake e hs io =
     (let msg = snd (build_handshake_message e io (replicate HandshakeSize 0))
      in hs\<lparr>hs_have_sent_bittorrent_handshake := True,
            hs_state := AwaitingHandshake,
            hs_peer_io := writeBytes e io msg\<rparr>)"

text \<open>The first \<^verbatim>\<open>if\<close> of \<^verbatim>\<open>on_error\<close>: the peer probably does not speak uTP.\<close>

definition on_error_utp :: "env \<Rightarrow> tr_handshake \<Rightarrow> int \<Rightarrow> tr_handshake" where
  "on_error_utp e hs errcode =
     (let io = hs_peer_io hs in
      if io_is_utp io \<and> \<not> io_is_incoming io \<and> hs_state hs = AwaitingYb then
        (let info_hash = io_torrent_hash io;
             info = torrent_info e info_hash;
             hs1 = (if (errcode = ETIMEDOUT \<or> errcode = ECONNREFUSED) \<and> info \<noteq> None
                    then set_utp_failed hs info_hash (io_address io) else hs)
         in if allows_tcp e then
              (if fst (reconnect io) then send_plain_handshake e hs1 (snd (reconnect io))
               else hs1\<lparr>hs_peer_io := snd (reconnect io)\<rparr>)
            else hs1)
      else hs)"

text \<open>
  \<^verbatim>\<open>on_error\<close>: the first \<^verbatim>\<open>if\<close> has no \<^verbatim>\<open>return\<close> and no \<^verbatim>\<open>else\<close>,
  so the second \<^verbatim>\<open>if\<close> is evaluated after it in every case. \<^verbatim>\<open>reconnect()\<close> is the
  last operand of its \<^verbatim>\<open>&&\<close> chain: it is called only when the operands before it
  hold.
\<close>

definition on_error :: "env \<Rightarrow> tr_handshake \<Rightarrow> int \<Rightarrow> tr_handshake" where
  "on_error e hs errcode =
     (let hs1 = on_error_utp e hs errcode;
          io = hs_peer_io hs1
      in if (hs_state hs1 = AwaitingYb \<or> hs_state hs1 = AwaitingVc)
            \<and> hs_encryption_mode hs1 \<noteq> TR_ENCRYPTION_REQUIRED \<and> allows_tcp e
         then (if fst (reconnect io) then send_plain_handshake e hs1 (snd (reconnect io))
               else snd (handshake_done e (hs1\<lparr>hs_peer_io := snd (reconnect io)\<rparr>) False))
         else snd (handshake_done e hs1 False))"

text \<open>
  Modelled from the spec: the members' values before the constructor's body runs, those of
  their default initialisers (handshake.h is not in the repository's files here): state
  \<^verbatim>\<open>AwaitingHandshake\<close>, lengths and bit sets 0, flags false, no peer-id, not
  completed.
\<close>

definition tr_handshake_init :: "tr_peerIo \<Rightarrow> tr_encryption_mode \<Rightarrow> tr_handshake" where
  "tr_handshake_init io mode_in =
     \<lparr>hs_state = AwaitingHandshake, hs_encryption_mode = mode_in,
      hs_dh_secret = replicate KeySize 0,
      hs_have_read_anything_from_peer = False, hs_have_sent_bittorrent_handshake = False,
      hs_crypto_select = 0, hs_crypto_provide = 0,
      hs_pad_c_len = 0, hs_pad_d_len = 0, hs_ia_len = 0,
      hs_peer_id = None, hs_peer_io = io, hs_done_result = None, hs_utp_failed = []\<rparr>"

text \<open>The constructor's body.\<close>

definition tr_handshake_new :: "env \<Rightarrow> tr_peerIo \<Rightarrow> tr_encryption_mode \<Rightarrow> tr_handshake" where
  "tr_handshake_new e io mode_in =
     (let hs = tr_handshake_init io mode_in in
      if io_is_incoming io then hs\<lparr>hs_state := AwaitingHandshake\<rparr>
      else if mode_in \<noteq> TR_CLEAR_PREFERRED then send_ya e hs
      else send_plain_handshake e hs io)"

text \<open>
  The states a session passes through: it is constructed; bytes arrive in the read
  buffer; \<^verbatim>\<open>can_read\<close> runs the handler of the current state (once or more);
  the transport reports an error; the timeout fires \<^verbatim>\<open>fire_done(false)\<close>.
\<close>

inductive reachable :: "env \<Rightarrow> tr_handshake \<Rightarrow> bool" for e :: env where
  r_new: "reachable e (tr_handshake_new e io mode_in)"
| r_bytes: "reachable e hs \<Longrightarrow>
     reachable e (hs\<lparr>hs_peer_io := (hs_peer_io hs)\<lparr>io_inbuf := io_inbuf (hs_peer_io hs) @ bs\<rparr>\<rparr>)"
| r_read: "reachable e hs \<Longrightarrow> dispatch e hs = Inr (ret, hs') \<Longrightarrow> reachable e hs'"
| r_error: "reachable e hs \<Longrightarrow> reachable e (on_error e hs errcode)"
| r_timeout: "reachable e hs \<Longrightarrow> reachable e (snd (fire_done e hs False))"

subsection \<open>Comparing sessions, and a small concrete world\<close>

text \<open>
  Two ways to vary or to forget the unread bytes of a session; and an environment, an IO
  and sessions on which the handlers can be run: a digest that only looks at the length of
  its input, a keystream that counts, one torrent.
\<close>

definition with_inbuf :: "tr_handshake \<Rightarrow> byte list \<Rightarrow> tr_handshake" where
  "with_inbuf hs bs = hs\<lparr>hs_peer_io := (hs_peer_io hs)\<lparr>io_inbuf := bs\<rparr>\<rparr>"

definition forget_inbuf :: "tr_handshake \<Rightarrow> tr_handshake" where
  "forget_inbuf hs = hs\<lparr>hs_peer_io := (hs_peer_io hs)\<lparr>io_inbuf := []\<rparr>\<rparr>"

definition ex_hash :: tr_sha1_digest_t where "ex_hash = replicate 20 0xAA"

definition ex_client_peer_id :: tr_peer_id_t where
  "ex_client_peer_id = sv ''-TR3000-abcdefghijkl''"

definition ex_info :: tr_torrent_info where
  "ex_info = \<lparr>ti_info_hash = ex_hash, ti_client_peer_id = ex_client_peer_id,
              ti_id = 1, ti_is_done = False\<rparr>"

definition ex_env :: env where
  "ex_env =
     \<lparr>sha1_digest = (\<lambda>bs. replicate 20 (of_nat (length bs))),
      dh_secret_for = (\<lambda>k. k),
      dh_public_key = replicate 96 3,
      random_pad = (\<lambda>n. []),
      rc4_keystream = (\<lambda>k i. of_nat i + 1),
      torrent_info = (\<lambda>h. if h = ex_hash then Some ex_info else None),
      torrent_info_from_obfuscated = (\<lambda>h. if h = replicate 20 24 then Some ex_info else None),
      is_peer_known_seed = (\<lambda>t a. False),
      allows_dht = True,
      allows_tcp = True,
      done_func = (\<lambda>ok. ok),
      crypto_provide_offer = (\<lambda>m. if m = TR_CLEAR_PREFERRED then 3 else 2)\<rparr>"

definition ex_io :: tr_peerIo where
  "ex_io =
     \<lparr>io_inbuf = [], io_outbuf = [], io_encrypt = None, io_decrypt = None,
      io_is_incoming = False, io_is_utp = False, io_torrent_hash = ex_hash, io_address = 7,
      io_dht = False, io_ltep = False, io_fext = False, io_reconnect_results = []\<rparr>"

definition ex_session :: "State \<Rightarrow> tr_encryption_mode \<Rightarrow> bool \<Rightarrow> byte list \<Rightarrow> tr_handshake" where
  "ex_session st m incoming bs =
     (tr_handshake_init (ex_io\<lparr>io_inbuf := bs, io_is_incoming := incoming\<rparr>) m)\<lparr>hs_state := st\<rparr>"

text \<open>The 68 bytes of a peer's plain handshake with no extension bit set.\<close>

definition ex_peer_handshake :: "tr_sha1_digest_t \<Rightarrow> tr_peer_id_t \<Rightarrow> byte list" where
  "ex_peer_handshake h pid = HandshakeName @ replicate 8 0 @ h @ pid"

text \<open>
  An incoming session on the encrypted path: the decryption filter is installed and has
  already deciphered 14 bytes, the state is AwaitingPayloadStream, and the read buffer
  holds a peer's handshake for our torrent as it came off the wire, enciphered.
\<close>

definition ex_filter :: Filter where
  "ex_filter = \<lparr>filter_key = replicate 20 1, filter_pos = 14\<rparr>"

definition ex_encrypted_session :: "tr_peer_id_t \<Rightarrow> tr_handshake" where
  "ex_encrypted_session pid =
     (tr_handshake_init
        (ex_io\<lparr>io_inbuf := fst (filter_apply ex_env ex_filter (ex_peer_handshake ex_hash pid)),
               io_decrypt := Some ex_filter, io_is_incoming := True\<rparr>)
        TR_ENCRYPTION_PREFERRED)\<lparr>hs_state := AwaitingPayloadStream\<rparr>"

definition ex_other_peer_id :: tr_peer_id_t where
  "ex_other_peer_id = sv ''-TR3000-zzzzzzzzzzzz''"

text \<open>
  A session that awaits the payload stream on an IO whose stored torrent hash is all
  zero, and a peer handshake whose info-hash is all zero too.
\<close>

definition ex_zero_hash_session :: tr_handshake where
  "ex_zero_hash_session =
     (tr_handshake_init
        (ex_io\<lparr>io_inbuf := ex_peer_handshake zero_digest (sv ''-TR3000-zzzzzzzzzzzz''),
               io_is_incoming := True, io_torrent_hash := zero_digest\<rparr>)
        TR_ENCRYPTION_PREFERRED)\<lparr>hs_state := AwaitingPayloadStream\<rparr>"

text \<open>
  An incoming encrypted session, step by step: the constructor; 150 bytes arrive (a public
  key, no PadA, the needle, the obfuscated hash, the encrypted VC, \<open>crypto_provide = 2\<close>
  and \<open>pad_c_len = 512\<close>); then the handlers of four states.
\<close>

definition ex_incoming_bytes :: "byte list" where
  "ex_incoming_bytes =
     replicate 96 5 @ replicate 20 100 @ replicate 20 124
     @ [1, 2, 3, 4, 5, 6, 7, 8, 9, 10, 11, 14, 15, 14]"

definition ex_incoming_0 :: tr_handshake where
  "ex_incoming_0 = tr_handshake_new ex_env (ex_io\<lparr>io_is_incoming := True\<rparr>) TR_ENCRYPTION_PREFERRED"

definition ex_incoming_1 :: tr_handshake where
  "ex_incoming_1 =
     ex_incoming_0\<lparr>hs_peer_io := (hs_peer_io ex_incoming_0)
        \<lparr>io_inbuf := io_inbuf (hs_peer_io ex_incoming_0) @ ex_incoming_bytes\<rparr>\<rparr>"

definition ex_incoming_2 :: tr_handshake where
  "ex_incoming_2 = snd (read_handshake ex_env ex_incoming_1)"

definition ex_incoming_3 :: tr_handshake where
  "ex_incoming_3 = snd (read_ya ex_env ex_incoming_2)"

definition ex_incoming_4 :: tr_handshake where
  "ex_incoming_4 = snd (read_pad_a ex_env ex_incoming_3)"

definition ex_incoming_5 :: tr_handshake where
  "ex_incoming_5 = snd (read_crypto_provide ex_env ex_incoming_4)"

text \<open>
  An outgoing session over uTP, as the constructor leaves it (our public key sent, state
  AwaitingYb), on an IO whose next reconnect succeeds.
\<close>

definition ex_utp_session :: "tr_sha1_digest_t \<Rightarrow> tr_handshake" where
  "ex_utp_session h =
     tr_handshake_new ex_env
       (ex_io\<lparr>io_is_utp := True, io_torrent_hash := h, io_reconnect_results := [True]\<rparr>)
       TR_ENCRYPTION_PREFERRED"

section \<open>Properties\<close>

subsection \<open>Facts about the IO, the filter and completion\<close>

lemma handshake_done_not_now: "fst (handshake_done e hs b) \<noteq> READ_NOW"
  by (simp add: handshake_done_def)

lemma handshake_done_result:
  "hs_done_result hs = None \<Longrightarrow> hs_done_result (snd (handshake_done e hs b)) = Some b"
  by (simp add: handshake_done_def fire_done_def)

lemma handshake_done_eq:
  "handshake_done e hs ok =
     (if hs_done_result hs = None \<and> done_func e ok then READ_LATER else READ_ERR,
      hs\<lparr>hs_done_result := (case hs_done_result hs of None \<Rightarrow> Some ok | Some r \<Rightarrow> Some r)\<rparr>)"
  by (cases hs) (simp add: handshake_done_def fire_done_def split: option.splits)

lemma filter_apply_length: "length (fst (filter_apply e f xs)) = length xs"
  by (simp add: filter_apply_def)

lemma filter_apply_nth:
  "i < length xs \<Longrightarrow>
   fst (filter_apply e f xs) ! i = xs ! i XOR rc4_keystream e (filter_key f) (filter_pos f + i)"
  by (simp add: filter_apply_def)

lemma filter_apply_snd: "snd (filter_apply e f xs) = f\<lparr>filter_pos := filter_pos f + length xs\<rparr>"
  by (simp add: filter_apply_def)

text \<open>
  The filter is a stream cipher: a slice of the output is the filter, moved on by the
  slice's offset, applied to the slice of the input.
\<close>

lemma filter_apply_slice:
  "take n (drop k (fst (filter_apply e f xs))) =
   fst (filter_apply e (f\<lparr>filter_pos := filter_pos f + k\<rparr>) (take n (drop k xs)))"
proof (rule nth_equalityI)
  show "length (take n (drop k (fst (filter_apply e f xs)))) =
        length (fst (filter_apply e (f\<lparr>filter_pos := filter_pos f + k\<rparr>) (take n (drop k xs))))"
    by (simp add: filter_apply_length)
next
  fix i
  assume "i < length (take n (drop k (fst (filter_apply e f xs))))"
  then have i: "i < n" "k + i < length xs"
    by (auto simp: filter_apply_length)
  then have "k \<le> length xs" by simp
  with i show "take n (drop k (fst (filter_apply e f xs))) ! i =
        fst (filter_apply e (f\<lparr>filter_pos := filter_pos f + k\<rparr>) (take n (drop k xs))) ! i"
    by (simp add: filter_apply_length filter_apply_nth add.assoc)
qed

lemma readBytes_plain:
  "io_decrypt io = None \<Longrightarrow>
   readBytes e io n = (take n (io_inbuf io), io\<lparr>io_inbuf := drop n (io_inbuf io)\<rparr>)"
  by (simp add: readBytes_def)

lemma readBytes_filtered:
  "io_decrypt io = Some f \<Longrightarrow>
   readBytes e io n =
     (fst (filter_apply e f (take n (io_inbuf io))),
      io\<lparr>io_inbuf := drop n (io_inbuf io),
         io_decrypt := Some (f\<lparr>filter_pos := filter_pos f + min (length (io_inbuf io)) n\<rparr>)\<rparr>)"
  by (simp add: readBytes_def Let_def filter_apply_snd)

lemma readBytes_inbuf [simp]: "io_inbuf (snd (readBytes e io n)) = drop n (io_inbuf io)"
  by (simp add: readBytes_def Let_def split: option.splits)

lemma readBytes_keeps [simp]:
  "io_torrent_hash (snd (readBytes e io n)) = io_torrent_hash io"
  "io_is_incoming (snd (readBytes e io n)) = io_is_incoming io"
  "io_address (snd (readBytes e io n)) = io_address io"
  "io_outbuf (snd (readBytes e io n)) = io_outbuf io"
  "io_encrypt (snd (readBytes e io n)) = io_encrypt io"
  by (simp_all add: readBytes_def Let_def split: option.splits)

lemma readBytes_prefix:
  "length a = n \<Longrightarrow>
   fst (readBytes e (io\<lparr>io_inbuf := a @ b\<rparr>) n) = fst (readBytes e (io\<lparr>io_inbuf := a\<rparr>) n)
   \<and> snd (readBytes e (io\<lparr>io_inbuf := a @ b\<rparr>) n) =
       (snd (readBytes e (io\<lparr>io_inbuf := a\<rparr>) n))\<lparr>io_inbuf := b\<rparr>"
  by (simp add: readBytes_def Let_def split: option.splits)

lemma decryptInit_fields [simp]:
  "io_decrypt (decryptInit e io inc secret h) = Some (filter_decryptInit e inc secret h)"
  "io_inbuf (decryptInit e io inc secret h) = io_inbuf io"
  "io_torrent_hash (decryptInit e io inc secret h) = io_torrent_hash io"
  by (simp_all add: decryptInit_def)

lemma setTorrentHash_fields [simp]:
  "io_torrent_hash (setTorrentHash io h) = h"
  "io_inbuf (setTorrentHash io h) = io_inbuf io"
  "io_is_incoming (setTorrentHash io h) = io_is_incoming io"
  "io_address (setTorrentHash io h) = io_address io"
  by (simp_all add: setTorrentHash_def)

lemma setTorrentHash_inbuf:
  "setTorrentHash (X\<lparr>io_inbuf := b\<rparr>) h = (setTorrentHash X h)\<lparr>io_inbuf := b\<rparr>"
  by (simp add: setTorrentHash_def)

lemma filter_decryptInit_pos [simp]: "filter_pos (filter_decryptInit e inc secret h) = 0"
  by (simp add: filter_decryptInit_def)

text \<open>Three reads in a row through a fresh filter: 8, 4 and 2 bytes.\<close>

lemma read_vc_provide_padc:
  fixes e :: env
  assumes dec: "io_decrypt io = Some f" and pos: "filter_pos f = 0"
    and len: "14 \<le> length (io_inbuf io)"
  defines "plain \<equiv> fst (filter_apply e f (take 14 (io_inbuf io)))"
  defines "io4 \<equiv> snd (readBytes e io 8)"
  shows "fst (readUint32 e io4) = of_nat (be_nat (take 4 (drop 8 plain)))"
    and "fst (readUint16 e (snd (readUint32 e io4))) = of_nat (be_nat (take 2 (drop 12 plain)))"
    and "snd (readUint16 e (snd (readUint32 e io4))) =
           io\<lparr>io_inbuf := drop 14 (io_inbuf io), io_decrypt := Some (f\<lparr>filter_pos := 14\<rparr>)\<rparr>"
proof -
  have io4: "io4 = io\<lparr>io_inbuf := drop 8 (io_inbuf io), io_decrypt := Some (f\<lparr>filter_pos := 8\<rparr>)\<rparr>"
    using dec pos len by (simp add: io4_def readBytes_filtered min_def)
  have io5: "snd (readUint32 e io4) =
      io\<lparr>io_inbuf := drop 12 (io_inbuf io), io_decrypt := Some (f\<lparr>filter_pos := 12\<rparr>)\<rparr>"
    using len by (simp add: io4 readUint32_def readBytes_filtered min_def)
  show "fst (readUint32 e io4) = of_nat (be_nat (take 4 (drop 8 plain)))"
    using pos by (simp add: io4 readUint32_def readBytes_filtered plain_def filter_apply_slice
        drop_take)
  show "fst (readUint16 e (snd (readUint32 e io4))) = of_nat (be_nat (take 2 (drop 12 plain)))"
    using pos by (simp add: io5 readUint16_def readBytes_filtered plain_def filter_apply_slice
        drop_take)
  show "snd (readUint16 e (snd (readUint32 e io4))) =
           io\<lparr>io_inbuf := drop 14 (io_inbuf io), io_decrypt := Some (f\<lparr>filter_pos := 14\<rparr>)\<rparr>"
    using len by (simp add: io5 readUint16_def readBytes_filtered min_def)
qed

lemma read_vc_forgets:
  "length v = 8 \<Longrightarrow>
   snd (readBytes e (decryptInit e (Y\<lparr>io_inbuf := v @ post\<rparr>) inc s h') 8) =
   (decryptInit e Y inc s h')
     \<lparr>io_inbuf := post, io_decrypt := Some ((filter_decryptInit e inc s h')\<lparr>filter_pos := 8\<rparr>)\<rparr>"
  by (simp add: readBytes_def Let_def decryptInit_def filter_apply_snd)

lemma length_HandshakeName [simp]: "length HandshakeName = 20"
  by (simp add: HandshakeName_def)

lemma writeBytes_plain:
  "io_encrypt io = None \<Longrightarrow> writeBytes e io bs = io\<lparr>io_outbuf := io_outbuf io @ bs\<rparr>"
  by (simp add: writeBytes_def)

lemma writeBytes_filtered:
  "io_encrypt io = Some f \<Longrightarrow>
   writeBytes e io bs =
     io\<lparr>io_outbuf := io_outbuf io @ fst (filter_apply e f bs),
        io_encrypt := Some (f\<lparr>filter_pos := filter_pos f + length bs\<rparr>)\<rparr>"
  by (simp add: writeBytes_def filter_apply_snd)

subsection \<open>The loop of can_read ends\<close>

text \<open>What state a handler leaves when it answers \<^verbatim>\<open>READ_NOW\<close>.\<close>

lemma now_read_handshake:
  "fst (read_handshake e hs) = READ_NOW \<Longrightarrow>
   hs_state (snd (read_handshake e hs)) \<in> {AwaitingYa, AwaitingPeerId}"
  by (auto simp: read_handshake_def read_handshake_body_def read_handshake_reply_def Let_def
      handshake_done_eq split: if_splits)

lemma now_read_peer_id: "fst (read_peer_id e hs) \<noteq> READ_NOW"
  by (simp add: read_peer_id_def Let_def handshake_done_eq)

lemma now_read_ya:
  "fst (read_ya e hs) = READ_NOW \<Longrightarrow> hs_state (snd (read_ya e hs)) = AwaitingPadA"
  by (auto simp: read_ya_def Let_def split: if_splits)

lemma now_read_pad_a_loop:
  "fst (read_pad_a_loop e needle n hs) = READ_NOW \<Longrightarrow>
   hs_state (snd (read_pad_a_loop e needle n hs)) = AwaitingCryptoProvide"
  by (induction n arbitrary: hs) (auto simp: Let_def handshake_done_eq split: if_splits)

lemma now_read_pad_a:
  "fst (read_pad_a e hs) = READ_NOW \<Longrightarrow> hs_state (snd (read_pad_a e hs)) = AwaitingCryptoProvide"
  by (simp add: read_pad_a_def now_read_pad_a_loop)

lemma now_read_crypto_provide:
  "fst (read_crypto_provide e hs) = READ_NOW \<Longrightarrow>
   hs_state (snd (read_crypto_provide e hs)) = AwaitingPadC"
  by (auto simp: read_crypto_provide_def Let_def handshake_done_eq
      split: if_splits option.splits)

lemma now_read_pad_c:
  "read_pad_c e hs = Inr (READ_NOW, hs') \<Longrightarrow> hs_state hs' = AwaitingIa"
  by (auto simp: read_pad_c_def Let_def split: if_splits)

lemma now_read_ia:
  "fst (read_ia e hs) = READ_NOW \<Longrightarrow> hs_state (snd (read_ia e hs)) = AwaitingPayloadStream"
  by (auto simp: read_ia_def Let_def handshake_done_eq split: if_splits)

lemma now_read_payload_stream: "fst (read_payload_stream e hs) \<noteq> READ_NOW"
  by (simp add: read_payload_stream_def Let_def handshake_done_eq)

lemma now_read_yb:
  "fst (read_yb e hs) = READ_NOW \<Longrightarrow>
   hs_state (snd (read_yb e hs)) \<in> {AwaitingHandshake, AwaitingVc}"
  by (auto simp: read_yb_def Let_def handshake_done_eq split: if_splits)

lemma now_read_vc_loop:
  "fst (read_vc_loop e h needle n hs) = READ_NOW \<Longrightarrow>
   hs_state (snd (read_vc_loop e h needle n hs)) = AwaitingCryptoSelect"
  by (induction n arbitrary: hs) (auto simp: Let_def handshake_done_eq split: if_splits)

lemma now_read_vc:
  "fst (read_vc e hs) = READ_NOW \<Longrightarrow> hs_state (snd (read_vc e hs)) = AwaitingCryptoSelect"
  by (simp add: read_vc_def Let_def now_read_vc_loop)

lemma now_read_crypto_select:
  "fst (read_crypto_select e hs) = READ_NOW \<Longrightarrow>
   hs_state (snd (read_crypto_select e hs)) = AwaitingPadD"
  by (auto simp: read_crypto_select_def Let_def handshake_done_eq split: if_splits)

lemma now_read_pad_d:
  "fst (read_pad_d e hs) = READ_NOW \<Longrightarrow> hs_state (snd (read_pad_d e hs)) = AwaitingHandshake"
  by (auto simp: read_pad_d_def Let_def split: if_splits)

lemma dispatch_progress:
  assumes "dispatch e hs = Inr (READ_NOW, hs')"
  shows "state_rank (hs_state hs') < state_rank (hs_state hs)"
proof (cases "hs_state hs")
  case AwaitingHandshake
  with assms have "read_handshake e hs = (READ_NOW, hs')" by (simp add: dispatch_def)
  with now_read_handshake [of e hs] AwaitingHandshake show ?thesis
    by (auto simp: state_rank_def)
next
  case AwaitingPeerId
  with assms now_read_peer_id [of e hs] show ?thesis by (simp add: dispatch_def)
next
  case AwaitingYa
  with assms have "read_ya e hs = (READ_NOW, hs')" by (simp add: dispatch_def)
  with now_read_ya [of e hs] AwaitingYa show ?thesis by (simp add: state_rank_def)
next
  case AwaitingPadA
  with assms have "read_pad_a e hs = (READ_NOW, hs')" by (simp add: dispatch_def)
  with now_read_pad_a [of e hs] AwaitingPadA show ?thesis
    by (simp add: state_rank_def)
next
  case AwaitingCryptoProvide
  with assms have "read_crypto_provide e hs = (READ_NOW, hs')" by (simp add: dispatch_def)
  with now_read_crypto_provide [of e hs] AwaitingCryptoProvide show ?thesis
    by (simp add: state_rank_def)
next
  case AwaitingPadC
  with assms have "read_pad_c e hs = Inr (READ_NOW, hs')" by (simp add: dispatch_def)
  with now_read_pad_c AwaitingPadC show ?thesis by (simp add: state_rank_def)
next
  case AwaitingIa
  with assms have "read_ia e hs = (READ_NOW, hs')" by (simp add: dispatch_def)
  with now_read_ia [of e hs] AwaitingIa show ?thesis by (simp add: state_rank_def)
next
  case AwaitingPayloadStream
  with assms now_read_payload_stream [of e hs] show ?thesis by (simp add: dispatch_def)
next
  case AwaitingYb
  with assms have "read_yb e hs = (READ_NOW, hs')" by (simp add: dispatch_def)
  with now_read_yb [of e hs] AwaitingYb show ?thesis by (auto simp: state_rank_def)
next
  case AwaitingVc
  with assms have "read_vc e hs = (READ_NOW, hs')" by (simp add: dispatch_def)
  with now_read_vc [of e hs] AwaitingVc show ?thesis
    by (simp add: state_rank_def)
next
  case AwaitingCryptoSelect
  with assms have "read_crypto_select e hs = (READ_NOW, hs')" by (simp add: dispatch_def)
  with now_read_crypto_select [of e hs] AwaitingCryptoSelect show ?thesis
    by (simp add: state_rank_def)
next
  case AwaitingPadD
  with assms have "read_pad_d e hs = (READ_NOW, hs')" by (simp add: dispatch_def)
  with now_read_pad_d [of e hs] AwaitingPadD show ?thesis by (simp add: state_rank_def)
qed

termination can_read
proof (relation "measure (\<lambda>(e, hs). state_rank (hs_state hs))")
  show "wf (measure (\<lambda>(e, hs). state_rank (hs_state hs)))" by simp
next
  fix e hs x2 ret hs'
  assume "dispatch e hs = Inr x2" and "(ret, hs') = x2" and "ready_for_more ret hs'"
  then have "dispatch e hs = Inr (READ_NOW, hs')"
    by (auto simp: ready_for_more_def split: if_splits)
  then show "((e, hs'), (e, hs)) \<in> measure (\<lambda>(e, hs). state_rank (hs_state hs))"
    by (simp add: dispatch_progress)
qed

declare can_read.simps [simp del]

lemma can_read_reachable:
  "reachable e hs \<Longrightarrow> can_read e hs = Inr (ret, hs') \<Longrightarrow> reachable e hs'"
proof (induction e hs rule: can_read.induct)
  case (1 e hs)
  show ?case
  proof (cases "dispatch e hs")
    case (Inl f)
    with "1.prems"(2) show ?thesis by (simp add: can_read.simps [of e hs])
  next
    case (Inr p)
    obtain r h where p: "p = (r, h)" by (cases p)
    from "1.prems"(1) Inr p have rh: "reachable e h" by (auto intro: r_read)
    show ?thesis
    proof (cases "ready_for_more r h")
      case True
      with "1.prems"(2) Inr p have "can_read e h = Inr (ret, hs')"
        by (simp add: can_read.simps [of e hs])
      with "1.IH" [OF Inr p [symmetric] True rh] show ?thesis .
    next
      case False
      with "1.prems"(2) Inr p have "hs' = h"
        by (simp add: can_read.simps [of e hs])
      with rh show ?thesis by simp
    qed
  qed
qed

lemma word_and_1_cases: "(cp :: u32) AND 1 = (if bit cp 0 then 1 else 0)"
  by (simp add: and_one_eq bit_0 mod_2_eq_odd)

lemma word_and_2_cases: "(cp :: u32) AND 2 = (if bit cp 1 then 2 else 0)"
proof -
  have "cp AND 2 ^ 1 = (if bit cp 1 then 2 ^ 1 else 0)"
    by (rule bit_word_eqI) (auto simp: bit_simps)
  then show ?thesis by simp
qed

text \<open>
  C4. For every encryption policy and every 32-bit \<open>crypto_provide\<close>, getCryptoSelect
  returns: under "required", rc4 (2) if offered and else 0; under "preferred", rc4 if
  offered, else plaintext (1) if offered, else 0; under "clear-preferred", plaintext if
  offered, else rc4 if offered, else 0. The result is 0 or a single bit that is present
  in \<open>crypto_provide\<close>.
\<close>

theorem getCryptoSelect_policy:
  "getCryptoSelect TR_ENCRYPTION_REQUIRED cp = (if cp AND 2 \<noteq> 0 then 2 else 0)
   \<and> getCryptoSelect TR_ENCRYPTION_PREFERRED cp =
       (if cp AND 2 \<noteq> 0 then 2 else if cp AND 1 \<noteq> 0 then 1 else 0)
   \<and> getCryptoSelect TR_CLEAR_PREFERRED cp =
       (if cp AND 1 \<noteq> 0 then 1 else if cp AND 2 \<noteq> 0 then 2 else 0)
   \<and> (getCryptoSelect m cp = 0
        \<or> (getCryptoSelect m cp = 1 \<or> getCryptoSelect m cp = 2)
          \<and> cp AND getCryptoSelect m cp = getCryptoSelect m cp)"
  by (cases m)
    (simp_all add: getCryptoSelect_def choices_of_def CryptoProvideCrypto_def
      CryptoProvidePlaintext_def word_and_1_cases word_and_2_cases)

subsection \<open>read_crypto_select\<close>

text \<open>
  C5. In state AwaitingCryptoSelect with at least 6 bytes buffered, the handler reads a
  u32 \<open>crypto_select\<close> and then a u16 \<open>pad_d_len\<close>; it completes with failure if and
  only if \<open>crypto_select AND crypto_provide = 0\<close> or \<open>pad_d_len > 512\<close>, and otherwise
  it stores both, moves to AwaitingPadD and asks to be run again.
\<close>

theorem read_crypto_select_spec:
  assumes "6 \<le> readBufferSize (hs_peer_io hs)" and "hs_done_result hs = None"
  shows
    "(let crypto_select = fst (readUint32 e (hs_peer_io hs));
          pad_d_len = fst (readUint16 e (snd (readUint32 e (hs_peer_io hs))));
          fails = (crypto_select AND crypto_provide_offer e (hs_encryption_mode hs) = 0
                   \<or> 512 < unat pad_d_len)
      in (hs_done_result (snd (read_crypto_select e hs)) = Some False) = fails
         \<and> (fst (read_crypto_select e hs) = READ_NOW) = (\<not> fails)
         \<and> (\<not> fails \<longrightarrow>
              read_crypto_select e hs =
                (READ_NOW,
                 hs\<lparr>hs_crypto_select := crypto_select,
                    hs_peer_io := snd (readUint16 e (snd (readUint32 e (hs_peer_io hs)))),
                    hs_pad_d_len := pad_d_len,
                    hs_state := AwaitingPadD\<rparr>)))"
  using assms
  by (auto simp: read_crypto_select_def Let_def handshake_done_not_now handshake_done_result)

theorem read_crypto_select_spec_witness:
  "6 \<le> readBufferSize (hs_peer_io
          (ex_session AwaitingCryptoSelect TR_ENCRYPTION_PREFERRED False [0, 0, 0, 2, 0, 0]))
   \<and> hs_done_result
        (ex_session AwaitingCryptoSelect TR_ENCRYPTION_PREFERRED False [0, 0, 0, 2, 0, 0]) = None
   \<and> fst (read_crypto_select ex_env
        (ex_session AwaitingCryptoSelect TR_ENCRYPTION_PREFERRED False [0, 0, 0, 2, 0, 0])) = READ_NOW
   \<and> hs_state (snd (read_crypto_select ex_env
        (ex_session AwaitingCryptoSelect TR_ENCRYPTION_PREFERRED False [0, 0, 0, 2, 0, 0]))) =
       AwaitingPadD"
  using read_crypto_select_spec
    [of "ex_session AwaitingCryptoSelect TR_ENCRYPTION_PREFERRED False [0, 0, 0, 2, 0, 0]" ex_env]
  by (simp add: ex_session_def tr_handshake_init_def ex_io_def ex_env_def readBufferSize_def
      readUint32_def readUint16_def readBytes_def be_nat_def Let_def)

subsection \<open>read_crypto_provide\<close>

text \<open>
  C7. In read_crypto_provide with enough bytes buffered (34), the handler completes with
  failure if the lookup of the obfuscated hash finds no torrent, or if the client is a seed
  and the peer is a known seed of that torrent, or if the parsed \<open>pad_c_len\<close> exceeds 512.
  Otherwise it has set the IO's torrent hash, installed the decrypt filter (14 of its
  keystream bytes are used by then), stored \<open>crypto_provide\<close> and \<open>pad_c_len\<close>, and
  moved to AwaitingPadC. The two integers are the big-endian values of bytes 8..11 and
  12..13 of the 14 bytes after the first 20, decrypted with the fresh filter.
\<close>

theorem read_crypto_provide_spec:
  assumes "34 \<le> readBufferSize (hs_peer_io hs)" and "hs_done_result hs = None"
  shows
    "(let io = hs_peer_io hs;
          res = read_crypto_provide e hs;
          obfuscated_hash =
            map2 (XOR) (fst (readBytes e io 20)) (sha1_digest e (sv ''req3'' @ hs_dh_secret hs))
      in case torrent_info_from_obfuscated e obfuscated_hash of
           None \<Rightarrow> hs_done_result (snd res) = Some False \<and> fst res \<noteq> READ_NOW
         | Some info \<Rightarrow>
             if ti_is_done info \<and> is_peer_known_seed e (ti_id info) (io_address io)
             then hs_done_result (snd res) = Some False \<and> fst res \<noteq> READ_NOW
             else
               let f = filter_decryptInit e (io_is_incoming io) (hs_dh_secret hs) (ti_info_hash info);
                   plain = fst (filter_apply e f (take 14 (drop 20 (io_inbuf io))));
                   crypto_provide = (of_nat (be_nat (take 4 (drop 8 plain))) :: u32);
                   padc_len = (of_nat (be_nat (take 2 (drop 12 plain))) :: u16)
               in if 512 < unat padc_len
                  then hs_done_result (snd res) = Some False \<and> fst res \<noteq> READ_NOW
                  else fst res = READ_NOW
                     \<and> hs_done_result (snd res) = None
                     \<and> hs_state (snd res) = AwaitingPadC
                     \<and> hs_pad_c_len (snd res) = padc_len
                     \<and> hs_crypto_provide (snd res) = crypto_provide
                     \<and> io_torrent_hash (hs_peer_io (snd res)) = ti_info_hash info
                     \<and> io_decrypt (hs_peer_io (snd res)) = Some (f\<lparr>filter_pos := 14\<rparr>)
                     \<and> io_inbuf (hs_peer_io (snd res)) = drop 34 (io_inbuf io))"
proof -
  define io where "io = hs_peer_io hs"
  define obf where "obf =
    map2 (XOR) (fst (readBytes e io 20)) (sha1_digest e (sv ''req3'' @ hs_dh_secret hs))"
  have len: "34 \<le> length (io_inbuf io)"
    using assms(1) by (simp add: readBufferSize_def io_def)
  show ?thesis
  proof (cases "torrent_info_from_obfuscated e obf")
    case None
    then show ?thesis
      using assms
      by (simp add: read_crypto_provide_def Let_def VC_def obf_def io_def
          handshake_done_not_now handshake_done_result)
  next
    case (Some info)
    define io3 where "io3 =
      decryptInit e (setTorrentHash (snd (readBytes e io 20)) (ti_info_hash info))
        (io_is_incoming io) (hs_dh_secret hs) (ti_info_hash info)"
    define f where "f =
      filter_decryptInit e (io_is_incoming io) (hs_dh_secret hs) (ti_info_hash info)"
    have dec: "io_decrypt io3 = Some f" and pos: "filter_pos f = 0"
      and buf: "io_inbuf io3 = drop 20 (io_inbuf io)"
      and hash3: "io_torrent_hash io3 = ti_info_hash info"
      by (simp_all add: io3_def f_def)
    have len3: "14 \<le> length (io_inbuf io3)"
      using len by (simp add: buf)
    note reads = read_vc_provide_padc [OF dec pos len3, of e, unfolded buf]
    show ?thesis
      using assms Some
      by (simp add: read_crypto_provide_def Let_def VC_def PadcMaxlen_def
          obf_def [symmetric] io_def [symmetric] io3_def [symmetric] f_def [symmetric]
          reads handshake_done_not_now handshake_done_result hash3)
  qed
qed

text \<open>
  A run on the concrete world: 20 bytes that decode to the torrent's obfuscated hash, then
  the encryption of eight zero bytes, \<open>crypto_provide = 2\<close> and \<open>pad_c_len = 0\<close>.
\<close>

lemma ex_crypto_provide_ready:
  "34 \<le> readBufferSize (hs_peer_io (ex_session AwaitingCryptoProvide TR_ENCRYPTION_PREFERRED True
      ([124, 124, 124, 124, 124, 124, 124, 124, 124, 124,
        124, 124, 124, 124, 124, 124, 124, 124, 124, 124]
       @ [1, 2, 3, 4, 5, 6, 7, 8, 9, 10, 11, 14, 13, 14])))"
  "hs_done_result (ex_session AwaitingCryptoProvide TR_ENCRYPTION_PREFERRED True
      ([124, 124, 124, 124, 124, 124, 124, 124, 124, 124,
        124, 124, 124, 124, 124, 124, 124, 124, 124, 124]
       @ [1, 2, 3, 4, 5, 6, 7, 8, 9, 10, 11, 14, 13, 14])) = None"
  by code_simp+

lemma ex_crypto_provide_run:
  "read_crypto_provide ex_env (ex_session AwaitingCryptoProvide TR_ENCRYPTION_PREFERRED True
      ([124, 124, 124, 124, 124, 124, 124, 124, 124, 124,
        124, 124, 124, 124, 124, 124, 124, 124, 124, 124]
       @ [1, 2, 3, 4, 5, 6, 7, 8, 9, 10, 11, 14, 13, 14])) =
   (READ_NOW,
    (ex_session AwaitingPadC TR_ENCRYPTION_PREFERRED True [])
      \<lparr>hs_crypto_provide := 2, hs_pad_c_len := 0,
       hs_peer_io := ex_io\<lparr>io_is_incoming := True,
          io_decrypt := Some \<lparr>filter_key = replicate 20 120, filter_pos = 14\<rparr>\<rparr>\<rparr>)"
  by code_simp

theorem read_crypto_provide_spec_witness:
  "34 \<le> readBufferSize (hs_peer_io (ex_session AwaitingCryptoProvide TR_ENCRYPTION_PREFERRED True
      ([124, 124, 124, 124, 124, 124, 124, 124, 124, 124,
        124, 124, 124, 124, 124, 124, 124, 124, 124, 124]
       @ [1, 2, 3, 4, 5, 6, 7, 8, 9, 10, 11, 14, 13, 14])))
   \<and> hs_done_result (ex_session AwaitingCryptoProvide TR_ENCRYPTION_PREFERRED True
      ([124, 124, 124, 124, 124, 124, 124, 124, 124, 124,
        124, 124, 124, 124, 124, 124, 124, 124, 124, 124]
       @ [1, 2, 3, 4, 5, 6, 7, 8, 9, 10, 11, 14, 13, 14])) = None
   \<and> read_crypto_provide ex_env (ex_session AwaitingCryptoProvide TR_ENCRYPTION_PREFERRED True
      ([124, 124, 124, 124, 124, 124, 124, 124, 124, 124,
        124, 124, 124, 124, 124, 124, 124, 124, 124, 124]
       @ [1, 2, 3, 4, 5, 6, 7, 8, 9, 10, 11, 14, 13, 14])) =
     (READ_NOW,
      (ex_session AwaitingPadC TR_ENCRYPTION_PREFERRED True [])
        \<lparr>hs_crypto_provide := 2, hs_pad_c_len := 0,
         hs_peer_io := ex_io\<lparr>io_is_incoming := True,
            io_decrypt := Some \<lparr>filter_key = replicate 20 120, filter_pos = 14\<rparr>\<rparr>\<rparr>)"
  using read_crypto_provide_spec [OF ex_crypto_provide_ready, of ex_env]
    ex_crypto_provide_ready ex_crypto_provide_run
  by blast

text \<open>
  What read_crypto_provide does with a buffer of 20 bytes, 8 bytes \<open>v\<close> and a rest: \<open>v\<close>
  is read through the filter and thrown away, so it is left only in the unread bytes of
  the sessions that fail before it is read.
\<close>

lemma read_crypto_provide_unfold:
  assumes "length pre = 20" and "length v = 8"
  shows "read_crypto_provide e (with_inbuf hs (pre @ v @ post)) =
    (let io = hs_peer_io hs;
         X = snd (readBytes e (io\<lparr>io_inbuf := pre\<rparr>) 20);
         obf = map2 (XOR) (fst (readBytes e (io\<lparr>io_inbuf := pre\<rparr>) 20))
                 (sha1_digest e (sv ''req3'' @ hs_dh_secret hs))
     in if length post < 6 then (READ_LATER, with_inbuf hs (pre @ v @ post))
        else case torrent_info_from_obfuscated e obf of
          None \<Rightarrow> handshake_done e (hs\<lparr>hs_peer_io := X\<lparr>io_inbuf := v @ post\<rparr>\<rparr>) False
        | Some info \<Rightarrow>
            if ti_is_done info \<and> is_peer_known_seed e (ti_id info) (io_address io)
            then handshake_done e
                   (hs\<lparr>hs_peer_io := (setTorrentHash X (ti_info_hash info))\<lparr>io_inbuf := v @ post\<rparr>\<rparr>) False
            else
              let io4 = (decryptInit e (setTorrentHash X (ti_info_hash info)) (io_is_incoming io)
                           (hs_dh_secret hs) (ti_info_hash info))
                         \<lparr>io_inbuf := post,
                          io_decrypt := Some ((filter_decryptInit e (io_is_incoming io)
                             (hs_dh_secret hs) (ti_info_hash info))\<lparr>filter_pos := 8\<rparr>)\<rparr>;
                  hs1 = hs\<lparr>hs_crypto_provide := fst (readUint32 e io4)\<rparr>;
                  padc_len = fst (readUint16 e (snd (readUint32 e io4)));
                  io6 = snd (readUint16 e (snd (readUint32 e io4)))
              in if PadcMaxlen < unat padc_len
                 then handshake_done e (hs1\<lparr>hs_peer_io := io6\<rparr>) False
                 else (READ_NOW, hs1\<lparr>hs_peer_io := io6, hs_pad_c_len := padc_len,
                                      hs_state := AwaitingPadC\<rparr>))"
proof -
  have inc: "io_is_incoming (snd (readBytes e ((hs_peer_io hs)\<lparr>io_inbuf := pre\<rparr>) 20)) =
             io_is_incoming (hs_peer_io hs)"
     and addr: "io_address (snd (readBytes e ((hs_peer_io hs)\<lparr>io_inbuf := pre\<rparr>) 20)) =
             io_address (hs_peer_io hs)"
    by simp_all
  show ?thesis
    using assms
    apply (simp only: read_crypto_provide_def with_inbuf_def Let_def)
    apply (simp add: readBufferSize_def VC_def readBytes_prefix [OF assms(1)]
        read_vc_forgets inc addr setTorrentHash_inbuf
        split: option.splits)
    done
qed

text \<open>
  C3. The result of read_crypto_provide does not depend on the 8 VC bytes: for two runs on
  inputs that differ only in those bytes (bytes 20..27 of the buffer), the answer, the
  state, the stored \<open>crypto_provide\<close> and \<open>pad_c_len\<close> and the completion are the same,
  and so is all of the session but the bytes still unread. No comparison with eight zero
  bytes is made.
\<close>

theorem read_crypto_provide_ignores_vc:
  assumes "length pre = 20" and "length vc = 8" and "length vc' = 8"
  shows "fst (read_crypto_provide e (with_inbuf hs (pre @ vc @ post))) =
           fst (read_crypto_provide e (with_inbuf hs (pre @ vc' @ post)))
       \<and> hs_state (snd (read_crypto_provide e (with_inbuf hs (pre @ vc @ post)))) =
           hs_state (snd (read_crypto_provide e (with_inbuf hs (pre @ vc' @ post))))
       \<and> hs_crypto_provide (snd (read_crypto_provide e (with_inbuf hs (pre @ vc @ post)))) =
           hs_crypto_provide (snd (read_crypto_provide e (with_inbuf hs (pre @ vc' @ post))))
       \<and> hs_pad_c_len (snd (read_crypto_provide e (with_inbuf hs (pre @ vc @ post)))) =
           hs_pad_c_len (snd (read_crypto_provide e (with_inbuf hs (pre @ vc' @ post))))
       \<and> hs_done_result (snd (read_crypto_provide e (with_inbuf hs (pre @ vc @ post)))) =
           hs_done_result (snd (read_crypto_provide e (with_inbuf hs (pre @ vc' @ post))))
       \<and> forget_inbuf (snd (read_crypto_provide e (with_inbuf hs (pre @ vc @ post)))) =
           forget_inbuf (snd (read_crypto_provide e (with_inbuf hs (pre @ vc' @ post))))"
  unfolding read_crypto_provide_unfold [OF assms(1) assms(2)]
    read_crypto_provide_unfold [OF assms(1) assms(3)]
  by (simp add: Let_def handshake_done_eq with_inbuf_def forget_inbuf_def
      split: option.splits)

text \<open>
  On the concrete world, a VC of eight bytes 255 where the peer should have sent the
  encryption of eight zero bytes is accepted all the same.
\<close>

lemma ex_vc_lengths:
  "length [124, 124, 124, 124, 124, 124, 124, 124, 124, 124,
           124, 124, 124, 124, 124, 124, 124, 124, 124, 124 :: byte] = 20"
  "length [1, 2, 3, 4, 5, 6, 7, 8 :: byte] = 8"
  "length [255, 255, 255, 255, 255, 255, 255, 255 :: byte] = 8"
  by simp_all

lemma ex_vc_wrong_accepted:
  "read_crypto_provide ex_env
     (with_inbuf (ex_session AwaitingCryptoProvide TR_ENCRYPTION_PREFERRED True [])
        ([124, 124, 124, 124, 124, 124, 124, 124, 124, 124,
          124, 124, 124, 124, 124, 124, 124, 124, 124, 124]
         @ [255, 255, 255, 255, 255, 255, 255, 255] @ [9, 10, 11, 14, 13, 14])) =
   (READ_NOW,
    (ex_session AwaitingPadC TR_ENCRYPTION_PREFERRED True [])
      \<lparr>hs_crypto_provide := 2, hs_pad_c_len := 0,
       hs_peer_io := ex_io\<lparr>io_is_incoming := True,
          io_decrypt := Some \<lparr>filter_key = replicate 20 120, filter_pos = 14\<rparr>\<rparr>\<rparr>)"
  by code_simp

theorem read_crypto_provide_ignores_vc_witness:
  "length [124, 124, 124, 124, 124, 124, 124, 124, 124, 124,
           124, 124, 124, 124, 124, 124, 124, 124, 124, 124 :: byte] = 20
   \<and> length [1, 2, 3, 4, 5, 6, 7, 8 :: byte] = 8
   \<and> length [255, 255, 255, 255, 255, 255, 255, 255 :: byte] = 8
   \<and> fst (read_crypto_provide ex_env
        (with_inbuf (ex_session AwaitingCryptoProvide TR_ENCRYPTION_PREFERRED True [])
           ([124, 124, 124, 124, 124, 124, 124, 124, 124, 124,
             124, 124, 124, 124, 124, 124, 124, 124, 124, 124]
            @ [1, 2, 3, 4, 5, 6, 7, 8] @ [9, 10, 11, 14, 13, 14]))) = READ_NOW
   \<and> hs_state (snd (read_crypto_provide ex_env
        (with_inbuf (ex_session AwaitingCryptoProvide TR_ENCRYPTION_PREFERRED True [])
           ([124, 124, 124, 124, 124, 124, 124, 124, 124, 124,
             124, 124, 124, 124, 124, 124, 124, 124, 124, 124]
            @ [1, 2, 3, 4, 5, 6, 7, 8] @ [9, 10, 11, 14, 13, 14])))) = AwaitingPadC"
proof -
  note same = read_crypto_provide_ignores_vc [OF ex_vc_lengths, of ex_env
      "ex_session AwaitingCryptoProvide TR_ENCRYPTION_PREFERRED True []" "[9, 10, 11, 14, 13, 14]"]
  from same have
    "fst (read_crypto_provide ex_env
        (with_inbuf (ex_session AwaitingCryptoProvide TR_ENCRYPTION_PREFERRED True [])
           ([124, 124, 124, 124, 124, 124, 124, 124, 124, 124,
             124, 124, 124, 124, 124, 124, 124, 124, 124, 124]
            @ [1, 2, 3, 4, 5, 6, 7, 8] @ [9, 10, 11, 14, 13, 14]))) = READ_NOW
     \<and> hs_state (snd (read_crypto_provide ex_env
        (with_inbuf (ex_session AwaitingCryptoProvide TR_ENCRYPTION_PREFERRED True [])
           ([124, 124, 124, 124, 124, 124, 124, 124, 124, 124,
             124, 124, 124, 124, 124, 124, 124, 124, 124, 124]
            @ [1, 2, 3, 4, 5, 6, 7, 8] @ [9, 10, 11, 14, 13, 14])))) = AwaitingPadC"
    unfolding ex_vc_wrong_accepted by (simp add: ex_session_def)
  with ex_vc_lengths show ?thesis by blast
qed

subsection \<open>parse_handshake and the peer-id\<close>

text \<open>
  C9. parse_handshake answers BadTorrent whenever the 20 info-hash bytes of the peer's
  68-byte handshake (after the protocol name and the 8 reserved bytes) are all zero,
  whatever hash is stored on the IO: also when the stored hash is all zero and the two
  would compare equal.
\<close>

theorem parse_handshake_zero_hash:
  assumes "HandshakeSize \<le> readBufferSize (hs_peer_io hs)"
    and "fst (readBytes e (hs_peer_io hs) 20) = HandshakeName"
    and "fst (readBytes e (snd (readBytes e (snd (readBytes e (hs_peer_io hs) 20)) 8)) 20) =
           replicate 20 0"
  shows "fst (parse_handshake e hs) = BadTorrent"
  using assms
  by (simp add: parse_handshake_def Let_def HandshakeFlagsLen_def zero_digest_def)

lemma ex_zero_hash_input:
  "HandshakeSize \<le> readBufferSize (hs_peer_io ex_zero_hash_session)"
  "fst (readBytes ex_env (hs_peer_io ex_zero_hash_session) 20) = HandshakeName"
  "fst (readBytes ex_env (snd (readBytes ex_env (snd (readBytes ex_env
     (hs_peer_io ex_zero_hash_session) 20)) 8)) 20) = replicate 20 0"
  by code_simp+

lemma ex_zero_hash_stored:
  "io_torrent_hash (hs_peer_io ex_zero_hash_session) = replicate 20 0"
  by code_simp

theorem parse_handshake_zero_hash_witness:
  "HandshakeSize \<le> readBufferSize (hs_peer_io ex_zero_hash_session)
   \<and> fst (readBytes ex_env (hs_peer_io ex_zero_hash_session) 20) = HandshakeName
   \<and> fst (readBytes ex_env (snd (readBytes ex_env (snd (readBytes ex_env
        (hs_peer_io ex_zero_hash_session) 20)) 8)) 20) = replicate 20 0
   \<and> io_torrent_hash (hs_peer_io ex_zero_hash_session) = replicate 20 0
   \<and> fst (parse_handshake ex_env ex_zero_hash_session) = BadTorrent"
  using parse_handshake_zero_hash [OF ex_zero_hash_input] ex_zero_hash_input ex_zero_hash_stored
  by blast

text \<open>
  C8. A session learns the peer's 20-byte peer-id in read_peer_id (plain path) or in
  parse_handshake, called by read_payload_stream (encrypted path, once the 68 bytes are
  buffered, start with the protocol name and carry a non-zero info-hash equal to the
  IO's). In both, if the mediator knows the IO's torrent and its \<open>client_peer_id\<close>
  equals the received peer-id, the session completes with failure (parse_handshake answers
  PeerIsSelf); otherwise the check passes: parse_handshake answers Ok, and read_peer_id
  and read_payload_stream complete with success.
\<close>

theorem peer_id_self_check:
  "(20 \<le> readBufferSize (hs_peer_io hs) \<and> hs_done_result hs = None \<longrightarrow>
      (let peer_id = fst (readBytes e (hs_peer_io hs) 20);
           self = (case torrent_info e (io_torrent_hash (hs_peer_io hs)) of
                     None \<Rightarrow> False
                   | Some info \<Rightarrow> ti_client_peer_id info = peer_id)
       in hs_peer_id (snd (read_peer_id e hs)) = Some peer_id
          \<and> hs_done_result (snd (read_peer_id e hs)) = Some (\<not> self)))
   \<and> (HandshakeSize \<le> readBufferSize (hs_peer_io hs) \<and> hs_done_result hs = None
       \<and> fst (readBytes e (hs_peer_io hs) 20) = HandshakeName
       \<and> fst (readBytes e (snd (readBytes e (snd (readBytes e (hs_peer_io hs) 20)) 8)) 20)
           \<noteq> zero_digest
       \<and> fst (readBytes e (snd (readBytes e (snd (readBytes e (hs_peer_io hs) 20)) 8)) 20)
           = io_torrent_hash (hs_peer_io hs) \<longrightarrow>
      (let peer_id = fst (readBytes e (snd (readBytes e (snd (readBytes e
                       (snd (readBytes e (hs_peer_io hs) 20)) 8)) 20)) 20);
           self = (case torrent_info e (io_torrent_hash (hs_peer_io hs)) of
                     None \<Rightarrow> False
                   | Some info \<Rightarrow> ti_client_peer_id info = peer_id)
       in hs_peer_id (snd (parse_handshake e hs)) = Some peer_id
          \<and> fst (parse_handshake e hs) = (if self then PeerIsSelf else Ok)
          \<and> hs_done_result (snd (read_payload_stream e hs)) = Some (\<not> self)))"
proof (intro conjI impI)
  assume "20 \<le> readBufferSize (hs_peer_io hs) \<and> hs_done_result hs = None"
  then show "let peer_id = fst (readBytes e (hs_peer_io hs) 20);
           self = (case torrent_info e (io_torrent_hash (hs_peer_io hs)) of
                     None \<Rightarrow> False
                   | Some info \<Rightarrow> ti_client_peer_id info = peer_id)
       in hs_peer_id (snd (read_peer_id e hs)) = Some peer_id
          \<and> hs_done_result (snd (read_peer_id e hs)) = Some (\<not> self)"
    by (simp add: read_peer_id_def Let_def handshake_done_eq)
next
  define io3 where "io3 = snd (readBytes e (snd (readBytes e
                       (snd (readBytes e (hs_peer_io hs) 20)) 8)) 20)"
  define info_hash where "info_hash = fst (readBytes e (snd (readBytes e
                       (snd (readBytes e (hs_peer_io hs) 20)) 8)) 20)"
  assume a: "HandshakeSize \<le> readBufferSize (hs_peer_io hs) \<and> hs_done_result hs = None
       \<and> fst (readBytes e (hs_peer_io hs) 20) = HandshakeName
       \<and> fst (readBytes e (snd (readBytes e (snd (readBytes e (hs_peer_io hs) 20)) 8)) 20)
           \<noteq> zero_digest
       \<and> fst (readBytes e (snd (readBytes e (snd (readBytes e (hs_peer_io hs) 20)) 8)) 20)
           = io_torrent_hash (hs_peer_io hs)"
  then have name: "fst (readBytes e (hs_peer_io hs) 20) = HandshakeName"
    and hash: "info_hash = io_torrent_hash (hs_peer_io hs)"
    and nonzero: "info_hash \<noteq> zero_digest"
    and size: "\<not> readBufferSize (hs_peer_io hs) < HandshakeSize"
    and fresh: "hs_done_result hs = None"
    by (auto simp: info_hash_def)
  have parse: "parse_handshake e hs =
      (let peer_id = fst (readBytes e io3 20);
           self = (case torrent_info e (io_torrent_hash (hs_peer_io hs)) of
                     None \<Rightarrow> False
                   | Some info \<Rightarrow> ti_client_peer_id info = peer_id);
           hs1 = hs\<lparr>hs_peer_id := Some peer_id, hs_peer_io := snd (readBytes e io3 20)\<rparr>
       in if self then (PeerIsSelf, hs1)
          else (Ok, hs1\<lparr>hs_peer_io := (snd (readBytes e io3 20))
                 \<lparr>io_dht := HANDSHAKE_HAS_DHT (fst (readBytes e (snd (readBytes e (hs_peer_io hs) 20)) 8)),
                  io_ltep := HANDSHAKE_HAS_LTEP (fst (readBytes e (snd (readBytes e (hs_peer_io hs) 20)) 8)),
                  io_fext := HANDSHAKE_HAS_FASTEXT (fst (readBytes e (snd (readBytes e (hs_peer_io hs) 20)) 8))\<rparr>\<rparr>))"
    using size name hash nonzero
    by (simp add: parse_handshake_def Let_def HandshakeFlagsLen_def info_hash_def io3_def)
  show "let peer_id = fst (readBytes e (snd (readBytes e (snd (readBytes e
                       (snd (readBytes e (hs_peer_io hs) 20)) 8)) 20)) 20);
           self = (case torrent_info e (io_torrent_hash (hs_peer_io hs)) of
                     None \<Rightarrow> False
                   | Some info \<Rightarrow> ti_client_peer_id info = peer_id)
       in hs_peer_id (snd (parse_handshake e hs)) = Some peer_id
          \<and> fst (parse_handshake e hs) = (if self then PeerIsSelf else Ok)
          \<and> hs_done_result (snd (read_payload_stream e hs)) = Some (\<not> self)"
    unfolding read_payload_stream_def parse io3_def [symmetric]
    using size fresh by (simp add: Let_def handshake_done_eq)
qed

text \<open>
  On the concrete world, on the plain path and on the encrypted path (the handshake
  enciphered on the wire and read through the installed filter): our own peer-id comes
  back and the session fails; another peer-id comes back and the check passes.
\<close>

lemma ex_plain_ready:
  "20 \<le> readBufferSize (hs_peer_io (ex_session AwaitingPeerId TR_CLEAR_PREFERRED False pid))"
  "hs_done_result (ex_session AwaitingPeerId TR_CLEAR_PREFERRED False pid) = None"
  "torrent_info ex_env (io_torrent_hash (hs_peer_io
      (ex_session AwaitingPeerId TR_CLEAR_PREFERRED False pid))) = Some ex_info"
  "fst (readBytes ex_env (hs_peer_io
      (ex_session AwaitingPeerId TR_CLEAR_PREFERRED False pid)) 20) = pid"
  if "pid = ex_client_peer_id \<or> pid = ex_other_peer_id" for pid
  using that by (elim disjE; hypsubst; code_simp)+

lemma ex_encrypted_ready:
  "HandshakeSize \<le> readBufferSize (hs_peer_io (ex_encrypted_session pid))"
  "hs_done_result (ex_encrypted_session pid) = None"
  "io_decrypt (hs_peer_io (ex_encrypted_session pid)) \<noteq> None"
  "take 20 (io_inbuf (hs_peer_io (ex_encrypted_session pid))) \<noteq> HandshakeName"
  "fst (readBytes ex_env (hs_peer_io (ex_encrypted_session pid)) 20) = HandshakeName"
  "fst (readBytes ex_env (snd (readBytes ex_env (snd (readBytes ex_env
      (hs_peer_io (ex_encrypted_session pid)) 20)) 8)) 20) \<noteq> zero_digest"
  "fst (readBytes ex_env (snd (readBytes ex_env (snd (readBytes ex_env
      (hs_peer_io (ex_encrypted_session pid)) 20)) 8)) 20) =
     io_torrent_hash (hs_peer_io (ex_encrypted_session pid))"
  "torrent_info ex_env (io_torrent_hash (hs_peer_io (ex_encrypted_session pid))) = Some ex_info"
  "fst (readBytes ex_env (snd (readBytes ex_env (snd (readBytes ex_env (snd (readBytes ex_env
      (hs_peer_io (ex_encrypted_session pid)) 20)) 8)) 20)) 20) = pid"
  "io_torrent_hash (hs_peer_io (ex_encrypted_session pid)) \<noteq> zero_digest"
  if "pid = ex_client_peer_id \<or> pid = ex_other_peer_id" for pid
  using that by (elim disjE; hypsubst; code_simp)+

lemma ex_peer_ids:
  "ti_client_peer_id ex_info = ex_client_peer_id"
  "ex_other_peer_id \<noteq> ex_client_peer_id"
  "ex_client_peer_id \<noteq> ex_other_peer_id"
  by code_simp+

theorem peer_id_self_check_witness:
  "20 \<le> readBufferSize (hs_peer_io
      (ex_session AwaitingPeerId TR_CLEAR_PREFERRED False ex_client_peer_id))
   \<and> hs_done_result (snd (read_peer_id ex_env
        (ex_session AwaitingPeerId TR_CLEAR_PREFERRED False ex_client_peer_id))) = Some False
   \<and> hs_done_result (snd (read_peer_id ex_env
        (ex_session AwaitingPeerId TR_CLEAR_PREFERRED False ex_other_peer_id))) = Some True
   \<and> HandshakeSize \<le> readBufferSize (hs_peer_io (ex_encrypted_session ex_client_peer_id))
   \<and> io_decrypt (hs_peer_io (ex_encrypted_session ex_client_peer_id)) \<noteq> None
   \<and> take 20 (io_inbuf (hs_peer_io (ex_encrypted_session ex_client_peer_id))) \<noteq> HandshakeName
   \<and> fst (parse_handshake ex_env (ex_encrypted_session ex_client_peer_id)) = PeerIsSelf
   \<and> hs_done_result (snd (read_payload_stream ex_env
        (ex_encrypted_session ex_client_peer_id))) = Some False
   \<and> hs_peer_id (snd (parse_handshake ex_env (ex_encrypted_session ex_other_peer_id))) =
        Some ex_other_peer_id
   \<and> fst (parse_handshake ex_env (ex_encrypted_session ex_other_peer_id)) = Ok
   \<and> hs_done_result (snd (read_payload_stream ex_env
        (ex_encrypted_session ex_other_peer_id))) = Some True"
proof -
  have self: "ex_client_peer_id = ex_client_peer_id \<or> ex_client_peer_id = ex_other_peer_id"
    and other: "ex_other_peer_id = ex_client_peer_id \<or> ex_other_peer_id = ex_other_peer_id"
    by simp_all
  note p1 = ex_plain_ready [OF self] and p2 = ex_plain_ready [OF other]
    and c1 = ex_encrypted_ready [OF self] and c2 = ex_encrypted_ready [OF other]
  have "hs_done_result (snd (read_peer_id ex_env
        (ex_session AwaitingPeerId TR_CLEAR_PREFERRED False ex_client_peer_id))) = Some False"
    using peer_id_self_check
      [of "ex_session AwaitingPeerId TR_CLEAR_PREFERRED False ex_client_peer_id" ex_env]
    by (simp add: Let_def p1 ex_peer_ids)
  moreover have "hs_done_result (snd (read_peer_id ex_env
        (ex_session AwaitingPeerId TR_CLEAR_PREFERRED False ex_other_peer_id))) = Some True"
    using peer_id_self_check
      [of "ex_session AwaitingPeerId TR_CLEAR_PREFERRED False ex_other_peer_id" ex_env]
    by (simp add: Let_def p2 ex_peer_ids)
  moreover have "fst (parse_handshake ex_env (ex_encrypted_session ex_client_peer_id)) = PeerIsSelf
    \<and> hs_done_result (snd (read_payload_stream ex_env
        (ex_encrypted_session ex_client_peer_id))) = Some False"
    using peer_id_self_check [of "ex_encrypted_session ex_client_peer_id" ex_env]
    by (simp add: Let_def c1 ex_peer_ids)
  moreover have "hs_peer_id (snd (parse_handshake ex_env (ex_encrypted_session ex_other_peer_id))) =
        Some ex_other_peer_id
    \<and> fst (parse_handshake ex_env (ex_encrypted_session ex_other_peer_id)) = Ok
    \<and> hs_done_result (snd (read_payload_stream ex_env
        (ex_encrypted_session ex_other_peer_id))) = Some True"
    using peer_id_self_check [of "ex_encrypted_session ex_other_peer_id" ex_env]
    by (simp add: Let_def c2 ex_peer_ids)
  ultimately show ?thesis
    using p1(1) c1(1,3,4) by blast
qed
subsection \<open>read_yb\<close>

text \<open>
  C6. On the encrypted path of read_yb (96 bytes buffered that do not start with the
  protocol name; no encryption installed yet; the torrent known to the mediator), the IO
  receives first SHA1("req1", S) and SHA1("req2", info_hash) XOR SHA1("req3", S), written
  before \<open>encryptInit\<close> and so in the clear, and then VC, \<open>crypto_provide\<close>, the two
  lengths and the BT handshake, written after it: exactly this third portion goes through
  the freshly keyed filter, from keystream position 0.
\<close>

theorem read_yb_clear_then_encrypted:
  assumes "KeySize \<le> readBufferSize (hs_peer_io hs)"
    and "\<not> readBufferStartsWith (hs_peer_io hs) HandshakeName"
    and "io_encrypt (hs_peer_io hs) = None"
    and "torrent_info e (io_torrent_hash (hs_peer_io hs)) = Some info"
  shows
    "(let io = hs_peer_io hs;
          S = dh_secret_for e (fst (readBytes e io KeySize));
          info_hash = io_torrent_hash io;
          clear = sha1_digest e (sv ''req1'' @ S)
                  @ map2 (XOR) (sha1_digest e (sv ''req2'' @ info_hash))
                               (sha1_digest e (sv ''req3'' @ S));
          third = VC @ be32 (crypto_provide_offer e (hs_encryption_mode hs)) @ be16 0 @ be16 68
                  @ snd (build_handshake_message e io (replicate HandshakeSize 0));
          f = filter_encryptInit e (io_is_incoming io) S info_hash;
          res = read_yb e hs
      in fst res = READ_NOW
         \<and> hs_state (snd res) = AwaitingVc
         \<and> io_outbuf (hs_peer_io (snd res)) = io_outbuf io @ clear @ fst (filter_apply e f third)
         \<and> io_encrypt (hs_peer_io (snd res)) = Some (f\<lparr>filter_pos := length third\<rparr>))"
proof -
  define io1 where "io1 = snd (readBytes e (hs_peer_io hs) KeySize)"
  have h1: "io_torrent_hash io1 = io_torrent_hash (hs_peer_io hs)"
    and e1: "io_encrypt io1 = None" and o1: "io_outbuf io1 = io_outbuf (hs_peer_io hs)"
    and i1: "io_is_incoming io1 = io_is_incoming (hs_peer_io hs)"
    using assms(3) by (simp_all add: io1_def)
  have size: "\<not> readBufferSize (hs_peer_io hs) < 20" "\<not> readBufferSize (hs_peer_io hs) < KeySize"
    using assms(1) by (simp_all add: KeySize_def)
  show ?thesis
    using assms(2,4) size
    by (simp add: read_yb_def Let_def io1_def [symmetric] h1 e1 o1 i1 writeBytes_plain
        writeBytes_filtered encryptInit_def build_handshake_message_def HandshakeSize_def
        filter_encryptInit_def)
qed

text \<open>
  On the concrete world (digest of a 100-byte input: twenty bytes 100; of a 24-byte input:
  twenty bytes 24; keystream 1, 2, 3, ...): the first 40 bytes on the wire are the two
  digests, the next 8 are the keystream itself, the encryption of the zero VC.
\<close>

lemma ex_yb_input:
  "KeySize \<le> readBufferSize (hs_peer_io
      (ex_session AwaitingYb TR_ENCRYPTION_REQUIRED False (replicate 96 5)))"
  "\<not> readBufferStartsWith (hs_peer_io
      (ex_session AwaitingYb TR_ENCRYPTION_REQUIRED False (replicate 96 5))) HandshakeName"
  "io_encrypt (hs_peer_io
      (ex_session AwaitingYb TR_ENCRYPTION_REQUIRED False (replicate 96 5))) = None"
  "torrent_info ex_env (io_torrent_hash (hs_peer_io
      (ex_session AwaitingYb TR_ENCRYPTION_REQUIRED False (replicate 96 5)))) = Some ex_info"
  by code_simp+

lemma ex_yb_wire:
  "take 48 (io_outbuf (hs_peer_io (snd (read_yb ex_env
      (ex_session AwaitingYb TR_ENCRYPTION_REQUIRED False (replicate 96 5)))))) =
   replicate 20 100 @ replicate 20 124 @ [1, 2, 3, 4, 5, 6, 7, 8]"
  "length (io_outbuf (hs_peer_io (snd (read_yb ex_env
      (ex_session AwaitingYb TR_ENCRYPTION_REQUIRED False (replicate 96 5)))))) = 40 + 84"
  by code_simp+

theorem read_yb_clear_then_encrypted_witness:
  "KeySize \<le> readBufferSize (hs_peer_io
      (ex_session AwaitingYb TR_ENCRYPTION_REQUIRED False (replicate 96 5)))
   \<and> \<not> readBufferStartsWith (hs_peer_io
      (ex_session AwaitingYb TR_ENCRYPTION_REQUIRED False (replicate 96 5))) HandshakeName
   \<and> io_encrypt (hs_peer_io
      (ex_session AwaitingYb TR_ENCRYPTION_REQUIRED False (replicate 96 5))) = None
   \<and> torrent_info ex_env (io_torrent_hash (hs_peer_io
      (ex_session AwaitingYb TR_ENCRYPTION_REQUIRED False (replicate 96 5)))) = Some ex_info
   \<and> hs_state (snd (read_yb ex_env
      (ex_session AwaitingYb TR_ENCRYPTION_REQUIRED False (replicate 96 5)))) = AwaitingVc
   \<and> take 48 (io_outbuf (hs_peer_io (snd (read_yb ex_env
      (ex_session AwaitingYb TR_ENCRYPTION_REQUIRED False (replicate 96 5)))))) =
     replicate 20 100 @ replicate 20 124 @ [1, 2, 3, 4, 5, 6, 7, 8]"
proof -
  from read_yb_clear_then_encrypted [OF ex_yb_input, of]
  have "hs_state (snd (read_yb ex_env
      (ex_session AwaitingYb TR_ENCRYPTION_REQUIRED False (replicate 96 5)))) = AwaitingVc"
    by (simp add: Let_def)
  with ex_yb_input ex_yb_wire(1) show ?thesis by blast
qed

subsection \<open>pad_c_len is at most 512 in every state a session reaches\<close>

text \<open>No handler but read_crypto_provide writes \<open>pad_c_len\<close>.\<close>

lemma padc_handshake_done [simp]:
  "hs_pad_c_len (snd (handshake_done e hs ok)) = hs_pad_c_len hs"
  by (simp add: handshake_done_eq)

lemma padc_read_handshake_reply [simp]:
  "hs_pad_c_len (snd (read_handshake_reply e hs)) = hs_pad_c_len hs"
  by (simp add: read_handshake_reply_def Let_def)

lemma padc_read_handshake_body [simp]:
  "hs_pad_c_len (snd (read_handshake_body e hs)) = hs_pad_c_len hs"
  by (simp add: read_handshake_body_def Let_def)

lemma padc_read_handshake [simp]:
  "hs_pad_c_len (snd (read_handshake e hs)) = hs_pad_c_len hs"
  by (simp add: read_handshake_def Let_def)

lemma padc_read_peer_id [simp]:
  "hs_pad_c_len (snd (read_peer_id e hs)) = hs_pad_c_len hs"
  by (simp add: read_peer_id_def Let_def)

lemma padc_read_ya [simp]:
  "hs_pad_c_len (snd (read_ya e hs)) = hs_pad_c_len hs"
  by (simp add: read_ya_def Let_def)

lemma padc_read_pad_a_loop [simp]:
  "hs_pad_c_len (snd (read_pad_a_loop e needle n hs)) = hs_pad_c_len hs"
  by (induction n arbitrary: hs) (simp_all add: Let_def)

lemma padc_read_pad_a [simp]:
  "hs_pad_c_len (snd (read_pad_a e hs)) = hs_pad_c_len hs"
  by (simp add: read_pad_a_def)

lemma padc_read_crypto_provide:
  "unat (hs_pad_c_len hs) \<le> PadcMaxlen \<Longrightarrow>
   unat (hs_pad_c_len (snd (read_crypto_provide e hs))) \<le> PadcMaxlen"
  by (simp add: read_crypto_provide_def Let_def split: option.splits)

lemma padc_read_pad_c:
  "read_pad_c e hs = Inr (ret, hs') \<Longrightarrow> hs_pad_c_len hs' = hs_pad_c_len hs"
  by (auto simp: read_pad_c_def Let_def split: if_splits)

lemma padc_read_ia [simp]:
  "hs_pad_c_len (snd (read_ia e hs)) = hs_pad_c_len hs"
  by (simp add: read_ia_def Let_def)

lemma padc_parse_handshake [simp]:
  "hs_pad_c_len (snd (parse_handshake e hs)) = hs_pad_c_len hs"
  by (simp add: parse_handshake_def Let_def)

lemma padc_read_payload_stream [simp]:
  "hs_pad_c_len (snd (read_payload_stream e hs)) = hs_pad_c_len hs"
  by (simp add: read_payload_stream_def Let_def)

lemma padc_read_yb [simp]:
  "hs_pad_c_len (snd (read_yb e hs)) = hs_pad_c_len hs"
  by (simp add: read_yb_def Let_def)

lemma padc_read_vc_loop [simp]:
  "hs_pad_c_len (snd (read_vc_loop e h needle n hs)) = hs_pad_c_len hs"
  by (induction n arbitrary: hs) (simp_all add: Let_def)

lemma padc_read_vc [simp]:
  "hs_pad_c_len (snd (read_vc e hs)) = hs_pad_c_len hs"
  by (simp add: read_vc_def Let_def)

lemma padc_read_crypto_select [simp]:
  "hs_pad_c_len (snd (read_crypto_select e hs)) = hs_pad_c_len hs"
  by (simp add: read_crypto_select_def Let_def)

lemma padc_read_pad_d [simp]:
  "hs_pad_c_len (snd (read_pad_d e hs)) = hs_pad_c_len hs"
  by (simp add: read_pad_d_def Let_def)

lemma padc_send_plain_handshake [simp]:
  "hs_pad_c_len (send_plain_handshake e hs io) = hs_pad_c_len hs"
  by (simp add: send_plain_handshake_def Let_def)

lemma padc_on_error_utp [simp]:
  "hs_pad_c_len (on_error_utp e hs errcode) = hs_pad_c_len hs"
  by (simp add: on_error_utp_def Let_def set_utp_failed_def)

lemma padc_on_error [simp]:
  "hs_pad_c_len (on_error e hs errcode) = hs_pad_c_len hs"
  by (simp add: on_error_def Let_def)

lemma padc_fire_done [simp]:
  "hs_pad_c_len (snd (fire_done e hs ok)) = hs_pad_c_len hs"
  by (simp add: fire_done_def split: option.splits)

lemma padc_new [simp]: "hs_pad_c_len (tr_handshake_new e io m) = 0"
  by (simp add: tr_handshake_new_def tr_handshake_init_def Let_def send_ya_def)

lemma snd_of_eq: "x = (a, b) \<Longrightarrow> snd x = b"
  by simp

lemma padc_dispatch:
  assumes "dispatch e hs = Inr (ret, hs')" and "unat (hs_pad_c_len hs) \<le> PadcMaxlen"
  shows "unat (hs_pad_c_len hs') \<le> PadcMaxlen"
proof (cases "hs_state hs")
  case AwaitingCryptoProvide
  with assms(1) have "hs' = snd (read_crypto_provide e hs)"
    by (simp add: dispatch_def)
  with assms(2) show ?thesis by (simp add: padc_read_crypto_provide)
next
  case AwaitingPadC
  with assms(1) have "read_pad_c e hs = Inr (ret, hs')"
    by (simp add: dispatch_def)
  with assms(2) show ?thesis by (simp add: padc_read_pad_c)
qed (use assms in \<open>auto simp: dispatch_def dest!: snd_of_eq\<close>)

lemma reachable_pad_c_len:
  "reachable e hs \<Longrightarrow> unat (hs_pad_c_len hs) \<le> PadcMaxlen"
proof (induction rule: reachable.induct)
  case (r_read hs ret hs')
  then show ?case by (rule_tac padc_dispatch)
qed simp_all

lemma dispatch_no_fault:
  "unat (hs_pad_c_len hs) \<le> PadcMaxlen \<Longrightarrow> dispatch e hs \<noteq> Inl f"
  by (cases "hs_state hs") (simp_all add: dispatch_def read_pad_c_def Let_def)

lemma can_read_no_fault:
  "reachable e hs \<Longrightarrow> can_read e hs \<noteq> Inl f"
proof (induction e hs rule: can_read.induct)
  case (1 e hs)
  show ?case
  proof (cases "dispatch e hs")
    case (Inl f')
    with dispatch_no_fault [OF reachable_pad_c_len [OF "1.prems"], of e f'] show ?thesis
      by simp
  next
    case (Inr p)
    obtain r h where p: "p = (r, h)" by (cases p)
    from "1.prems" Inr p have rh: "reachable e h" by (auto intro: r_read)
    show ?thesis
    proof (cases "ready_for_more r h")
      case True
      with "1.IH" [OF Inr p [symmetric] True rh] Inr p show ?thesis
        by (simp add: can_read.simps [of e hs])
    next
      case False
      with Inr p show ?thesis by (simp add: can_read.simps [of e hs])
    qed
  qed
qed

text \<open>
  C10. Whenever read_pad_c runs, the stored \<open>pad_c_len\<close> is at most 512: it is 0 at
  construction and is written only by read_crypto_provide, after the check against
  \<open>PadcMaxlen\<close>. So in every state a session reaches, the read of \<open>pad_c_len\<close> bytes
  into the 512-byte array stays within bounds: neither one handler call nor a whole run of
  can_read faults.
\<close>

theorem read_pad_c_in_bounds:
  assumes "reachable e hs"
  shows "unat (hs_pad_c_len hs) \<le> PadcMaxlen
       \<and> dispatch e hs \<noteq> Inl BufferOverrun
       \<and> can_read e hs \<noteq> Inl BufferOverrun"
  using assms reachable_pad_c_len [OF assms]
  by (simp add: dispatch_no_fault can_read_no_fault)

text \<open>A session that reaches AwaitingPadC with \<open>pad_c_len = 512\<close>.\<close>

lemma ex_incoming_steps:
  "dispatch ex_env ex_incoming_1 = Inr (READ_NOW, ex_incoming_2)"
  "dispatch ex_env ex_incoming_2 = Inr (READ_NOW, ex_incoming_3)"
  "dispatch ex_env ex_incoming_3 = Inr (READ_NOW, ex_incoming_4)"
  "dispatch ex_env ex_incoming_4 = Inr (READ_NOW, ex_incoming_5)"
  by code_simp+

lemma ex_incoming_5_state:
  "hs_state ex_incoming_5 = AwaitingPadC" "hs_pad_c_len ex_incoming_5 = 512"
  by code_simp+

lemma ex_incoming_reachable: "reachable ex_env ex_incoming_5"
proof -
  have "reachable ex_env ex_incoming_0"
    unfolding ex_incoming_0_def by (rule r_new)
  then have "reachable ex_env ex_incoming_1"
    unfolding ex_incoming_1_def by (rule r_bytes)
  then have "reachable ex_env ex_incoming_2"
    by (rule r_read) (rule ex_incoming_steps)
  then have "reachable ex_env ex_incoming_3"
    by (rule r_read) (rule ex_incoming_steps)
  then have "reachable ex_env ex_incoming_4"
    by (rule r_read) (rule ex_incoming_steps)
  then show ?thesis
    by (rule r_read) (rule ex_incoming_steps)
qed

theorem read_pad_c_in_bounds_witness:
  "reachable ex_env ex_incoming_5
   \<and> hs_state ex_incoming_5 = AwaitingPadC
   \<and> hs_pad_c_len ex_incoming_5 = 512
   \<and> unat (hs_pad_c_len ex_incoming_5) \<le> PadcMaxlen
   \<and> dispatch ex_env ex_incoming_5 \<noteq> Inl BufferOverrun
   \<and> can_read ex_env ex_incoming_5 \<noteq> Inl BufferOverrun"
  using read_pad_c_in_bounds [OF ex_incoming_reachable] ex_incoming_reachable ex_incoming_5_state
  by blast

subsection \<open>read_pad_a\<close>

text \<open>
  The scan, in general: \<open>n\<close> iterations over a buffer that holds no needle at its first
  \<open>n\<close> offsets end in failure with \<open>n\<close> bytes drained; a needle at offset \<open>k < n\<close>
  is found.
\<close>

lemma readBufferDrain_inbuf [simp]:
  "io_inbuf (readBufferDrain e io n) = drop n (io_inbuf io)"
  by (simp add: readBufferDrain_def)

lemma read_pad_a_loop_miss:
  assumes "hs_done_result hs = None"
    and "n + length needle \<le> length (io_inbuf (hs_peer_io hs)) + 1"
    and "\<forall>k<n. take (length needle) (drop k (io_inbuf (hs_peer_io hs))) \<noteq> needle"
  shows "hs_done_result (snd (read_pad_a_loop e needle n hs)) = Some False
       \<and> fst (read_pad_a_loop e needle n hs) \<noteq> READ_NOW
       \<and> io_inbuf (hs_peer_io (snd (read_pad_a_loop e needle n hs))) =
           drop n (io_inbuf (hs_peer_io hs))"
  using assms
proof (induction n arbitrary: hs)
  case 0
  then show ?case by (simp add: handshake_done_eq)
next
  case (Suc n)
  let ?hs' = "hs\<lparr>hs_peer_io := readBufferDrain e (hs_peer_io hs) 1\<rparr>"
  from Suc.prems(3) have miss: "take (length needle) (io_inbuf (hs_peer_io hs)) \<noteq> needle"
    by auto
  from Suc.prems(2) have long: "\<not> readBufferSize (hs_peer_io hs) < length needle"
    by (simp add: readBufferSize_def)
  from miss have nonempty: "io_inbuf (hs_peer_io hs) \<noteq> [] \<or> needle \<noteq> []"
    by auto
  have step: "read_pad_a_loop e needle (Suc n) hs = read_pad_a_loop e needle n ?hs'"
    using miss long by (simp add: Let_def readBufferStartsWith_def)
  have p1: "hs_done_result ?hs' = None" using Suc.prems(1) by simp
  have p2: "n + length needle \<le> length (io_inbuf (hs_peer_io ?hs')) + 1"
    using Suc.prems(2) nonempty by (cases "io_inbuf (hs_peer_io hs)") auto
  have p3: "\<forall>k<n. take (length needle) (drop k (io_inbuf (hs_peer_io ?hs'))) \<noteq> needle"
  proof (intro allI impI)
    fix k assume "k < n"
    then have "Suc k < Suc n" by simp
    with Suc.prems(3) have "take (length needle) (drop (Suc k) (io_inbuf (hs_peer_io hs))) \<noteq> needle"
      by blast
    then show "take (length needle) (drop k (io_inbuf (hs_peer_io ?hs'))) \<noteq> needle"
      by simp
  qed
  from Suc.IH [OF p1 p2 p3] show ?case
    unfolding step by simp
qed

lemma read_pad_a_loop_hit:
  assumes "k < n"
    and "k + length needle \<le> length (io_inbuf (hs_peer_io hs))"
    and "take (length needle) (drop k (io_inbuf (hs_peer_io hs))) = needle"
    and "\<forall>j<k. take (length needle) (drop j (io_inbuf (hs_peer_io hs))) \<noteq> needle"
  shows "fst (read_pad_a_loop e needle n hs) = READ_NOW
       \<and> hs_state (snd (read_pad_a_loop e needle n hs)) = AwaitingCryptoProvide
       \<and> hs_done_result (snd (read_pad_a_loop e needle n hs)) = hs_done_result hs
       \<and> io_inbuf (hs_peer_io (snd (read_pad_a_loop e needle n hs))) =
           drop (k + length needle) (io_inbuf (hs_peer_io hs))"
  using assms
proof (induction k arbitrary: n hs)
  case 0
  then obtain m where n: "n = Suc m" by (cases n) auto
  from 0 show ?case
    by (simp add: n Let_def readBufferSize_def readBufferStartsWith_def)
next
  case (Suc k)
  then obtain m where n: "n = Suc m" and km: "k < m" by (cases n) auto
  let ?hs' = "hs\<lparr>hs_peer_io := readBufferDrain e (hs_peer_io hs) 1\<rparr>"
  from Suc.prems(4) have miss: "take (length needle) (io_inbuf (hs_peer_io hs)) \<noteq> needle"
    by auto
  from Suc.prems(2) have long: "\<not> readBufferSize (hs_peer_io hs) < length needle"
    by (simp add: readBufferSize_def)
  have step: "read_pad_a_loop e needle n hs = read_pad_a_loop e needle m ?hs'"
    using miss long by (simp add: n Let_def readBufferStartsWith_def)
  have p2: "k + length needle \<le> length (io_inbuf (hs_peer_io ?hs'))"
    using Suc.prems(2) by simp
  have p3: "take (length needle) (drop k (io_inbuf (hs_peer_io ?hs'))) = needle"
    using Suc.prems(3) by simp
  have p4: "\<forall>j<k. take (length needle) (drop j (io_inbuf (hs_peer_io ?hs'))) \<noteq> needle"
  proof (intro allI impI)
    fix j assume "j < k"
    then have "Suc j < Suc k" by simp
    with Suc.prems(4) have "take (length needle) (drop (Suc j) (io_inbuf (hs_peer_io hs))) \<noteq> needle"
      by blast
    then show "take (length needle) (drop j (io_inbuf (hs_peer_io ?hs'))) \<noteq> needle"
      by simp
  qed
  from Suc.IH [OF km p2 p3 p4] show ?case
    unfolding step by simp
qed


text \<open>
  What read_pad_a does when PadA, the needle and what follows are all in the buffer and the
  needle does not occur before the end of PadA: it finds the needle if PadA is shorter
  than 512 bytes, and completes with failure if PadA has 512 bytes or more.
\<close>

lemma read_pad_a_buffered:
  assumes fresh: "hs_done_result hs = None"
    and needle: "needle = sha1_digest e (sv ''req1'' @ hs_dh_secret hs)"
    and buf: "io_inbuf (hs_peer_io hs) = pad @ needle @ rest"
    and first: "\<forall>k<length pad. take (length needle) (drop k (pad @ needle @ rest)) \<noteq> needle"
  shows "if length pad < PadaMaxlen
         then fst (read_pad_a e hs) = READ_NOW
            \<and> hs_state (snd (read_pad_a e hs)) = AwaitingCryptoProvide
            \<and> io_inbuf (hs_peer_io (snd (read_pad_a e hs))) = rest
         else hs_done_result (snd (read_pad_a e hs)) = Some False
            \<and> fst (read_pad_a e hs) \<noteq> READ_NOW"
proof (cases "length pad < PadaMaxlen")
  case True
  have "fst (read_pad_a_loop e needle PadaMaxlen hs) = READ_NOW
       \<and> hs_state (snd (read_pad_a_loop e needle PadaMaxlen hs)) = AwaitingCryptoProvide
       \<and> hs_done_result (snd (read_pad_a_loop e needle PadaMaxlen hs)) = hs_done_result hs
       \<and> io_inbuf (hs_peer_io (snd (read_pad_a_loop e needle PadaMaxlen hs))) =
           drop (length pad + length needle) (io_inbuf (hs_peer_io hs))"
    using True first by (intro read_pad_a_loop_hit) (simp_all add: buf)
  with True show ?thesis
    by (simp add: read_pad_a_def needle [symmetric] buf)
next
  case False
  have "hs_done_result (snd (read_pad_a_loop e needle PadaMaxlen hs)) = Some False
       \<and> fst (read_pad_a_loop e needle PadaMaxlen hs) \<noteq> READ_NOW
       \<and> io_inbuf (hs_peer_io (snd (read_pad_a_loop e needle PadaMaxlen hs))) =
           drop PadaMaxlen (io_inbuf (hs_peer_io hs))"
    using False first fresh by (intro read_pad_a_loop_miss) (simp_all add: buf)
  with False show ?thesis
    by (simp add: read_pad_a_def needle [symmetric])
qed

lemma ex_no_early_needle:
  assumes "k < p"
  shows "take 20 (drop k (replicate p 0 @ replicate 20 (100 :: byte) @ rest)) \<noteq> replicate 20 100"
proof
  assume eq: "take 20 (drop k (replicate p 0 @ replicate 20 (100 :: byte) @ rest)) = replicate 20 100"
  have "take 20 (drop k (replicate p 0 @ replicate 20 (100 :: byte) @ rest)) ! 0 = 0"
    using assms by (simp add: nth_append)
  with eq show False by simp
qed

lemma ex_pad_a_session:
  "hs_done_result (ex_session AwaitingPadA TR_ENCRYPTION_PREFERRED True bs) = None"
  "io_inbuf (hs_peer_io (ex_session AwaitingPadA TR_ENCRYPTION_PREFERRED True bs)) = bs"
  "sha1_digest ex_env (sv ''req1'' @ hs_dh_secret (ex_session AwaitingPadA TR_ENCRYPTION_PREFERRED True bs))
     = replicate 20 100"
  by (simp_all add: ex_session_def tr_handshake_init_def ex_io_def ex_env_def sv_def KeySize_def)

lemma ex_no_early_needle_all:
  "\<forall>k<length (replicate p (0 :: byte)).
      take (length (replicate 20 (100 :: byte)))
        (drop k (replicate p (0 :: byte) @ replicate 20 (100 :: byte) @ rest)) \<noteq>
      replicate 20 100"
proof (intro allI impI)
  fix k
  assume "k < length (replicate p (0 :: byte))"
  then have "k < p" by simp
  from ex_no_early_needle [OF this]
  show "take (length (replicate 20 (100 :: byte)))
          (drop k (replicate p (0 :: byte) @ replicate 20 (100 :: byte) @ rest)) \<noteq>
        replicate 20 100"
    by simp
qed

text \<open>
  On the concrete world the needle is twenty bytes 100. A pad of \<open>p\<close> zero bytes and the
  needle, all buffered:
\<close>

lemma ex_pad_a_run:
  "if p < PadaMaxlen
   then fst (read_pad_a ex_env (ex_session AwaitingPadA TR_ENCRYPTION_PREFERRED True
               (replicate p 0 @ replicate 20 100 @ rest))) = READ_NOW
      \<and> hs_state (snd (read_pad_a ex_env (ex_session AwaitingPadA TR_ENCRYPTION_PREFERRED True
               (replicate p 0 @ replicate 20 100 @ rest)))) = AwaitingCryptoProvide
      \<and> io_inbuf (hs_peer_io (snd (read_pad_a ex_env (ex_session AwaitingPadA
               TR_ENCRYPTION_PREFERRED True (replicate p 0 @ replicate 20 100 @ rest))))) = rest
   else hs_done_result (snd (read_pad_a ex_env (ex_session AwaitingPadA TR_ENCRYPTION_PREFERRED
               True (replicate p 0 @ replicate 20 100 @ rest)))) = Some False
      \<and> fst (read_pad_a ex_env (ex_session AwaitingPadA TR_ENCRYPTION_PREFERRED True
               (replicate p 0 @ replicate 20 100 @ rest))) \<noteq> READ_NOW"
  using read_pad_a_buffered [OF ex_pad_a_session(1) ex_pad_a_session(3) [symmetric]
      ex_pad_a_session(2) ex_no_early_needle_all, of p rest]
  by (simp only: length_replicate)

text \<open>
  C2. The claim: in AwaitingPadA the handler scans byte by byte for the 20-byte needle
  SHA1("req1", S); a PadA of exactly 512 bytes is scanned through and the session moves to
  AwaitingCryptoProvide, and a PadA of 513 bytes fails. The code: with 512 pad bytes and
  the needle all in the buffer, the 512 iterations test the offsets 0..511 and drain 512
  bytes, the needle at offset 512 is never tested, and the session completes with failure;
  511 pad bytes are the most that one call passes.
\<close>

theorem read_pad_a_pad512_fails:
  "sha1_digest ex_env (sv ''req1'' @ hs_dh_secret
      (ex_session AwaitingPadA TR_ENCRYPTION_PREFERRED True (replicate 512 0 @ replicate 20 100)))
     = replicate 20 100
   \<and> hs_done_result (snd (read_pad_a ex_env
        (ex_session AwaitingPadA TR_ENCRYPTION_PREFERRED True
           (replicate 512 0 @ replicate 20 100)))) = Some False
   \<and> fst (read_pad_a ex_env
        (ex_session AwaitingPadA TR_ENCRYPTION_PREFERRED True
           (replicate 512 0 @ replicate 20 100))) \<noteq> READ_NOW
   \<and> fst (read_pad_a ex_env
        (ex_session AwaitingPadA TR_ENCRYPTION_PREFERRED True
           (replicate 511 0 @ replicate 20 100))) = READ_NOW"
  using ex_pad_a_run [of 512 "[]"] ex_pad_a_run [of 511 "[]"]
  by (simp add: PadaMaxlen_def ex_pad_a_session)


text \<open>
  The loop counter starts again at every call. A PadA of 513 bytes that arrives in two
  segments, 21 bytes and then 492 bytes with the needle: the first call drains two bytes
  and waits; the second call finds the needle after the 511 bytes that are left.
\<close>

lemma read_pad_a_pad513_in_two_segments:
  "read_pad_a ex_env (ex_session AwaitingPadA TR_ENCRYPTION_PREFERRED True (replicate 21 0)) =
     (READ_LATER, ex_session AwaitingPadA TR_ENCRYPTION_PREFERRED True (replicate 19 0))
   \<and> fst (read_pad_a ex_env (ex_session AwaitingPadA TR_ENCRYPTION_PREFERRED True
          (replicate 19 0 @ replicate 492 0 @ replicate 20 100))) = READ_NOW"
proof -
  have first: "read_pad_a ex_env
      (ex_session AwaitingPadA TR_ENCRYPTION_PREFERRED True (replicate 21 0)) =
     (READ_LATER, ex_session AwaitingPadA TR_ENCRYPTION_PREFERRED True (replicate 19 0))"
    by code_simp
  have merge: "replicate 19 (0 :: byte) @ replicate 492 0 @ ys = replicate 511 0 @ ys" for ys
    using replicate_add [of 19 492 "0 :: byte"] by simp
  from ex_pad_a_run [of 511 "[]"] first show ?thesis
    by (simp add: PadaMaxlen_def merge)
qed

subsection \<open>on_error\<close>

lemma send_plain_handshake_fields [simp]:
  "hs_utp_failed (send_plain_handshake e hs io) = hs_utp_failed hs"
  "hs_state (send_plain_handshake e hs io) = AwaitingHandshake"
  "hs_have_sent_bittorrent_handshake (send_plain_handshake e hs io)"
  "hs_done_result (send_plain_handshake e hs io) = hs_done_result hs"
  "hs_encryption_mode (send_plain_handshake e hs io) = hs_encryption_mode hs"
  "hs_peer_io (send_plain_handshake e hs io) =
     writeBytes e io (snd (build_handshake_message e io (replicate HandshakeSize 0)))"
  by (simp_all add: send_plain_handshake_def Let_def)

lemma reconnect_fields [simp]:
  "io_torrent_hash (snd (reconnect io)) = io_torrent_hash io"
  "io_outbuf (snd (reconnect io)) = io_outbuf io"
  "io_encrypt (snd (reconnect io)) = io_encrypt io"
  by (simp_all add: reconnect_def split: list.splits)

lemma build_handshake_message_hash:
  "io_torrent_hash io' = io_torrent_hash io \<Longrightarrow>
   build_handshake_message e io' buf = build_handshake_message e io buf"
  by (simp add: build_handshake_message_def)

text \<open>
  C1. An outgoing session whose transport errors while the socket is uTP and the state is
  AwaitingYb, with errno ETIMEDOUT or ECONNREFUSED, for a torrent the mediator knows (its
  info-hash not all zero, as build_handshake_message asserts), when
  \<open>allows_tcp()\<close> holds and \<open>reconnect()\<close> succeeds (the session not completed yet and no
  encryption installed on the IO, as in AwaitingYb): \<open>set_utp_failed\<close> is recorded for
  the torrent and the peer's address, the 68-byte plain BT handshake (protocol name, eight
  flag bytes, the torrent's hash, our peer-id) is written unencrypted on the new socket,
  the flag that our BT handshake was sent is set and the state becomes AwaitingHandshake;
  and then, in the same call, the session is completed with failure. The retry block of
  on_error does not return, so control reaches the second \<open>if\<close>; its condition is false
  in the new state AwaitingHandshake, and its \<open>else\<close> branch calls \<open>done(false)\<close>.
\<close>

theorem on_error_utp_fallback_completes_with_failure:
  assumes "io_is_utp (hs_peer_io hs)" and "\<not> io_is_incoming (hs_peer_io hs)"
    and "hs_state hs = AwaitingYb" and "hs_done_result hs = None"
    and "errcode = ETIMEDOUT \<or> errcode = ECONNREFUSED"
    and "torrent_info e (io_torrent_hash (hs_peer_io hs)) = Some info"
    and "allows_tcp e" and "fst (reconnect (hs_peer_io hs))"
    and "io_encrypt (hs_peer_io hs) = None"
    and "io_torrent_hash (hs_peer_io hs) \<noteq> zero_digest"
  shows
    "(let io = hs_peer_io hs;
          hs' = on_error e hs errcode;
          msg = snd (build_handshake_message e io (replicate HandshakeSize 0))
      in hs_utp_failed hs' = hs_utp_failed hs @ [(io_torrent_hash io, io_address io)]
         \<and> hs_state hs' = AwaitingHandshake
         \<and> hs_have_sent_bittorrent_handshake hs'
         \<and> io_outbuf (hs_peer_io hs') = io_outbuf io @ msg
         \<and> fst (build_handshake_message e io (replicate HandshakeSize 0))
         \<and> take 20 msg = HandshakeName
         \<and> drop 28 msg = io_torrent_hash io @ ti_client_peer_id info
         \<and> hs_done_result hs' = Some False)"
proof -
  define io where "io = hs_peer_io hs"
  define hs1 where "hs1 = set_utp_failed hs (io_torrent_hash io) (io_address io)"
  have utp: "on_error_utp e hs errcode = send_plain_handshake e hs1 (snd (reconnect io))"
    using assms by (auto simp: on_error_utp_def Let_def io_def hs1_def)
  have hs1_fields: "hs_utp_failed hs1 = hs_utp_failed hs @ [(io_torrent_hash io, io_address io)]"
    "hs_done_result hs1 = None"
    using assms(4) by (simp_all add: hs1_def set_utp_failed_def)
  have msg: "fst (build_handshake_message e io (replicate HandshakeSize 0))"
    "take 20 (snd (build_handshake_message e io (replicate HandshakeSize 0))) = HandshakeName"
    "drop 28 (snd (build_handshake_message e io (replicate HandshakeSize 0))) =
       io_torrent_hash io @ ti_client_peer_id info"
    using assms(6)
    by (simp_all add: build_handshake_message_def Let_def HandshakeFlagsLen_def io_def
        HANDSHAKE_SET_DHT_def HANDSHAKE_SET_FASTEXT_def HANDSHAKE_SET_LTEP_def)
  have run: "hs_utp_failed (on_error e hs errcode) = hs_utp_failed hs1"
    "hs_state (on_error e hs errcode) = AwaitingHandshake"
    "hs_have_sent_bittorrent_handshake (on_error e hs errcode)"
    "io_outbuf (hs_peer_io (on_error e hs errcode)) =
       io_outbuf io @ snd (build_handshake_message e io (replicate HandshakeSize 0))"
    "hs_done_result (on_error e hs errcode) = Some False"
    using assms(9) hs1_fields(2)
    by (simp_all add: on_error_def utp Let_def handshake_done_eq writeBytes_plain
        build_handshake_message_hash [of "snd (reconnect io)" io] io_def [symmetric])
  show ?thesis
    using run hs1_fields(1) msg by (simp add: Let_def io_def [symmetric])
qed

text \<open>
  On the concrete world: an outgoing uTP session for our torrent, as the constructor
  leaves it (96 bytes of public key sent), gets ETIMEDOUT; the reconnect succeeds.
\<close>

lemma ex_utp_input:
  "io_is_utp (hs_peer_io (ex_utp_session ex_hash))"
  "\<not> io_is_incoming (hs_peer_io (ex_utp_session ex_hash))"
  "hs_state (ex_utp_session ex_hash) = AwaitingYb"
  "hs_done_result (ex_utp_session ex_hash) = None"
  "ETIMEDOUT = ETIMEDOUT \<or> ETIMEDOUT = ECONNREFUSED"
  "torrent_info ex_env (io_torrent_hash (hs_peer_io (ex_utp_session ex_hash))) = Some ex_info"
  "allows_tcp ex_env"
  "fst (reconnect (hs_peer_io (ex_utp_session ex_hash)))"
  "io_encrypt (hs_peer_io (ex_utp_session ex_hash)) = None"
  "io_torrent_hash (hs_peer_io (ex_utp_session ex_hash)) \<noteq> zero_digest"
  by code_simp+

lemma ex_utp_values:
  "hs_utp_failed (ex_utp_session ex_hash) = []"
  "io_torrent_hash (hs_peer_io (ex_utp_session ex_hash)) = ex_hash"
  "io_address (hs_peer_io (ex_utp_session ex_hash)) = 7"
  "length (io_outbuf (hs_peer_io (ex_utp_session ex_hash))) = 96"
  "snd (build_handshake_message ex_env (hs_peer_io (ex_utp_session ex_hash))
          (replicate HandshakeSize 0)) =
     HandshakeName @ [0, 0, 0, 0, 0, 16, 0, 5] @ ex_hash @ ex_client_peer_id"
  by code_simp+

theorem on_error_utp_fallback_completes_with_failure_witness:
  "io_is_utp (hs_peer_io (ex_utp_session ex_hash))
   \<and> \<not> io_is_incoming (hs_peer_io (ex_utp_session ex_hash))
   \<and> hs_state (ex_utp_session ex_hash) = AwaitingYb
   \<and> hs_done_result (ex_utp_session ex_hash) = None
   \<and> torrent_info ex_env (io_torrent_hash (hs_peer_io (ex_utp_session ex_hash))) = Some ex_info
   \<and> io_torrent_hash (hs_peer_io (ex_utp_session ex_hash)) \<noteq> zero_digest
   \<and> allows_tcp ex_env
   \<and> fst (reconnect (hs_peer_io (ex_utp_session ex_hash)))
   \<and> io_encrypt (hs_peer_io (ex_utp_session ex_hash)) = None
   \<and> hs_utp_failed (on_error ex_env (ex_utp_session ex_hash) ETIMEDOUT) = [(ex_hash, 7)]
   \<and> hs_state (on_error ex_env (ex_utp_session ex_hash) ETIMEDOUT) = AwaitingHandshake
   \<and> hs_have_sent_bittorrent_handshake (on_error ex_env (ex_utp_session ex_hash) ETIMEDOUT)
   \<and> drop 96 (io_outbuf (hs_peer_io (on_error ex_env (ex_utp_session ex_hash) ETIMEDOUT))) =
       HandshakeName @ [0, 0, 0, 0, 0, 16, 0, 5] @ ex_hash @ ex_client_peer_id
   \<and> hs_done_result (on_error ex_env (ex_utp_session ex_hash) ETIMEDOUT) = Some False"
proof -
  have "hs_utp_failed (on_error ex_env (ex_utp_session ex_hash) ETIMEDOUT) = [(ex_hash, 7)]
      \<and> hs_state (on_error ex_env (ex_utp_session ex_hash) ETIMEDOUT) = AwaitingHandshake
      \<and> hs_have_sent_bittorrent_handshake (on_error ex_env (ex_utp_session ex_hash) ETIMEDOUT)
      \<and> drop 96 (io_outbuf (hs_peer_io (on_error ex_env (ex_utp_session ex_hash) ETIMEDOUT))) =
          HandshakeName @ [0, 0, 0, 0, 0, 16, 0, 5] @ ex_hash @ ex_client_peer_id
      \<and> hs_done_result (on_error ex_env (ex_utp_session ex_hash) ETIMEDOUT) = Some False"
    using on_error_utp_fallback_completes_with_failure [OF ex_utp_input]
    by (simp add: Let_def ex_utp_values)
  then show ?thesis
    using ex_utp_input by blast
qed

text \<open>
  The recording of the uTP failure is guarded by the torrent lookup: for a torrent the
  mediator does not know, on_error records nothing, whatever the errno.
\<close>

lemma on_error_utp_unknown_torrent:
  assumes "torrent_info e (io_torrent_hash (hs_peer_io hs)) = None"
  shows "hs_utp_failed (on_error e hs errcode) = hs_utp_failed hs"
  using assms
  by (simp add: on_error_def on_error_utp_def Let_def handshake_done_eq set_utp_failed_def
      send_plain_handshake_def)
end
